theory Spec2Isabelle
  imports Main "HOL-Library.Word"
begin

section \<open>Formatting verbs of \<^verbatim>\<open>fmt.Errorf\<close> used by the health checks\<close>

text \<open>
  The health checks report a failure as an error built by \<^verbatim>\<open>fmt.Errorf\<close>; a \<^verbatim>\<open>nil\<close>
  error means healthy. An error is modelled as \<open>string option\<close>: \<open>None\<close> is \<^verbatim>\<open>nil\<close>,
  \<open>Some m\<close> is an error whose text is \<open>m\<close>. The verbs the source uses are \<^verbatim>\<open>%s\<close> (the string
  itself), \<^verbatim>\<open>%d\<close> (a signed decimal) and \<^verbatim>\<open>%q\<close> (a double-quoted Go string literal).
  A Go string is a sequence of bytes; it is modelled as a \<open>string\<close>, one character for each
  byte.
\<close>

fun fmt_nat :: "nat \<Rightarrow> string" where
  "fmt_nat n =
     (if n < 10 then [''0123456789'' ! n]
      else fmt_nat (n div 10) @ [''0123456789'' ! (n mod 10)])"

declare fmt_nat.simps [simp del]

definition fmt_d :: "int \<Rightarrow> string" where
  "fmt_d i = (if i < 0 then CHR ''-'' # fmt_nat (nat (- i)) else fmt_nat (nat i))"

subsection \<open>\<^verbatim>\<open>%q\<close>: \<^verbatim>\<open>strconv.Quote\<close>\<close>

text \<open>
  \<^verbatim>\<open>%q\<close> on a value of a string type is \<^verbatim>\<open>strconv.AppendQuote\<close>. It reads the string rune by
  rune: a byte below 0x80 is a rune by itself, from 0x80 up the rune and its width come from
  \<^verbatim>\<open>utf8.DecodeRuneInString\<close>. A rune is a \<open>nat\<close> here, a byte is its value as a \<open>nat\<close>.

  \<open>hex_digits k r\<close> is the loop that writes \<open>k\<close> lower-case hexadecimal digits of \<open>r\<close>, the most
  significant one first.
\<close>

definition RuneError :: nat where "RuneError = 0xFFFD"

fun hex_digits :: "nat \<Rightarrow> nat \<Rightarrow> string" where
  "hex_digits 0 r = []"
| "hex_digits (Suc k) r = (''0123456789abcdef'' ! ((r div 16 ^ k) mod 16)) # hex_digits k r"

text \<open>
  \<^verbatim>\<open>utf8.DecodeRuneInString\<close>: the rune at the head of the bytes and its width. The first byte
  fixes the size \<open>sz\<close> of the encoding and the range \<open>lo\<close> to \<open>hi\<close> that the second byte must lie
  in (which rules out over-long encodings, surrogates and runes above 0x10FFFF); the third and
  the fourth byte must lie in 0x80 to 0xBF. Anything else is \<open>RuneError\<close> with width 1.
\<close>

fun DecodeRuneInString :: "nat list \<Rightarrow> nat \<times> nat" where
  "DecodeRuneInString [] = (RuneError, 0)"
| "DecodeRuneInString (s0 # rest) =
     (if s0 < 0x80 then (s0, 1)
      else if s0 < 0xC2 \<or> 0xF4 < s0 then (RuneError, 1)
      else
        (let sz = (if s0 < 0xE0 then 2 else if s0 < 0xF0 then 3 else 4 :: nat);
             lo = (if s0 = 0xE0 then 0xA0 else if s0 = 0xF0 then 0x90 else 0x80);
             hi = (if s0 = 0xED then 0x9F else if s0 = 0xF4 then 0x8F else 0xBF)
         in if length (s0 # rest) < sz then (RuneError, 1)
            else
              (let s1 = rest ! 0 in
               if s1 < lo \<or> hi < s1 then (RuneError, 1)
               else if sz \<le> 2 then ((s0 mod 32) * 64 + s1 mod 64, 2)
               else
                 (let s2 = rest ! 1 in
                  if s2 < 0x80 \<or> 0xBF < s2 then (RuneError, 1)
                  else if sz \<le> 3 then ((s0 mod 16) * 4096 + (s1 mod 64) * 64 + s2 mod 64, 3)
                  else
                    (let s3 = rest ! 2 in
                     if s3 < 0x80 \<or> 0xBF < s3 then (RuneError, 1)
                     else ((s0 mod 8) * 262144 + (s1 mod 64) * 4096 + (s2 mod 64) * 64
                           + s3 mod 64, 4))))))"

declare DecodeRuneInString.simps [simp del]

definition ValidRune :: "nat \<Rightarrow> bool" where
  "ValidRune r = (r < 0xD800 \<or> (0xDFFF < r \<and> r \<le> 0x10FFFF))"

text \<open>\<^verbatim>\<open>utf8.AppendRune\<close>: the UTF-8 encoding of a rune.\<close>

definition AppendRune :: "nat \<Rightarrow> string" where
  "AppendRune r =
     (if r \<le> 0x7F then [char_of r]
      else if r \<le> 0x7FF then [char_of (0xC0 + r div 64), char_of (0x80 + r mod 64)]
      else
        (let r' = (if 0x10FFFF < r \<or> (0xD800 \<le> r \<and> r \<le> 0xDFFF) then RuneError else r) in
         if r' \<le> 0xFFFF then
           [char_of (0xE0 + r' div 4096), char_of (0x80 + (r' div 64) mod 64),
            char_of (0x80 + r' mod 64)]
         else
           [char_of (0xF0 + r' div 262144), char_of (0x80 + (r' div 4096) mod 64),
            char_of (0x80 + (r' div 64) mod 64), char_of (0x80 + r' mod 64)]))"

text \<open>
  \<^verbatim>\<open>strconv.IsPrint\<close>. Up to 0xFF the function decides by itself: the ASCII characters from
  the space to the tilde, and the Latin-1 characters from 0xA1 up other than the soft hyphen
  0xAD. Above 0xFF it searches the Unicode tables of package \<^verbatim>\<open>strconv\<close>, which belong to the
  Go release and not to this repository: the answer of the tables is the parameter
  \<open>printable\<close>, and every function that formats with \<^verbatim>\<open>%q\<close> carries it.
\<close>

definition IsPrint :: "(nat \<Rightarrow> bool) \<Rightarrow> nat \<Rightarrow> bool" where
  "IsPrint printable r =
     (if r \<le> 0xFF then
        (if 0x20 \<le> r \<and> r \<le> 0x7E then True
         else if 0xA1 \<le> r \<and> r \<le> 0xFF then r \<noteq> 0xAD
         else False)
      else printable r)"

text \<open>
  \<^verbatim>\<open>appendEscapedRune\<close> with the double quote as the quote character, neither ASCII-only nor
  graphic-only. The double quote and the backslash get a backslash in front; a printable rune
  is written in UTF-8; the control characters that have a letter escape use it; every other
  rune is written in hexadecimal: backslash, x and two digits below the space and for 0x7F,
  backslash, u and four digits below 0x10000, backslash, U and eight digits from there on.
  (The case of 0x7F is that of the current Go releases; older ones wrote it with u and four
  digits. No claim below depends on it.)
\<close>

definition appendEscapedRune :: "(nat \<Rightarrow> bool) \<Rightarrow> nat \<Rightarrow> string" where
  "appendEscapedRune printable r =
     (if r = 0x22 \<or> r = 0x5C then [CHR 0x5C, char_of r]
      else if IsPrint printable r then AppendRune r
      else if r = 7 then [CHR 0x5C, CHR ''a'']
      else if r = 8 then [CHR 0x5C, CHR ''b'']
      else if r = 12 then [CHR 0x5C, CHR ''f'']
      else if r = 10 then [CHR 0x5C, CHR ''n'']
      else if r = 13 then [CHR 0x5C, CHR ''r'']
      else if r = 9 then [CHR 0x5C, CHR ''t'']
      else if r = 11 then [CHR 0x5C, CHR ''v'']
      else if r < 0x20 \<or> r = 0x7F then [CHR 0x5C, CHR ''x''] @ hex_digits 2 r
      else if \<not> ValidRune r then [CHR 0x5C, CHR ''u''] @ hex_digits 4 RuneError
      else if r < 0x10000 then [CHR 0x5C, CHR ''u''] @ hex_digits 4 r
      else [CHR 0x5C, CHR ''U''] @ hex_digits 8 r)"

text \<open>
  The loop of \<^verbatim>\<open>appendQuotedWith\<close>. A byte that starts no valid encoding (width 1 and
  \<open>RuneError\<close>) is written as backslash, x and its two digits, and the loop goes on behind it;
  any other rune goes through \<open>appendEscapedRune\<close> and the loop goes on behind its encoding.
\<close>

fun quoteRunes :: "(nat \<Rightarrow> bool) \<Rightarrow> string \<Rightarrow> string" where
  "quoteRunes printable [] = []"
| "quoteRunes printable (c # s) =
     (let b = (of_char c :: nat);
          rw = (if 0x80 \<le> b then DecodeRuneInString (map of_char (c # s)) else (b, 1))
      in if snd rw = 1 \<and> fst rw = RuneError then
           [CHR 0x5C, CHR ''x''] @ hex_digits 2 b @ quoteRunes printable s
         else appendEscapedRune printable (fst rw) @ quoteRunes printable (drop (snd rw - 1) s))"

definition appendQuotedWith :: "(nat \<Rightarrow> bool) \<Rightarrow> string \<Rightarrow> string" where
  "appendQuotedWith printable s = [CHR 0x22] @ quoteRunes printable s @ [CHR 0x22]"

definition fmt_q :: "(nat \<Rightarrow> bool) \<Rightarrow> string \<Rightarrow> string" where
  "fmt_q printable s = appendQuotedWith printable s"

text \<open>\<^verbatim>\<open>%q\<close> on a slice of strings: the quoted elements, separated by spaces, in brackets.\<close>

fun join_space :: "string list \<Rightarrow> string" where
  "join_space [] = []"
| "join_space [x] = x"
| "join_space (x # y # ys) = x @ '' '' @ join_space (y # ys)"

definition fmt_q_list :: "(nat \<Rightarrow> bool) \<Rightarrow> string list \<Rightarrow> string" where
  "fmt_q_list printable xs = ''['' @ join_space (map (fmt_q printable) xs) @ '']''"

text \<open>
  A table for the examples: of the runes above 0xFF that the examples use, U+65E5 (a CJK
  ideograph) is printable and U+2028 (the line separator) is not, as in the tables of Go.
\<close>

definition example_printable :: "nat \<Rightarrow> bool" where
  "example_printable r = (r = 0x65E5)"

text \<open>
  Plain text: every byte is a printable ASCII character other than the double quote and the
  backslash.
\<close>

definition plain_ascii :: "string \<Rightarrow> bool" where
  "plain_ascii s =
     list_all (\<lambda>c. 0x20 \<le> (of_char c :: nat) \<and> (of_char c :: nat) \<le> 0x7E
                     \<and> c \<noteq> CHR 0x22 \<and> c \<noteq> CHR 0x5C) s"

section \<open>Status types read by the health checks\<close>

text \<open>
  \<^verbatim>\<open>CustomResourceDefinitionCondition\<close> and \<^verbatim>\<open>JobCondition\<close> are Kubernetes API structs
  with the same fields \<^verbatim>\<open>Type\<close>, \<^verbatim>\<open>Status\<close>, \<^verbatim>\<open>Reason\<close>, \<^verbatim>\<open>Message\<close> (all string types) and
  time stamps that the checks never read. One record stands for both.
\<close>

record Condition =
  Type :: string
  Status :: string
  Reason :: string
  Message :: string

record CustomResourceDefinition =
  crd_Conditions :: "Condition list"

record Job =
  job_Conditions :: "Condition list"

record Pod =
  Phase :: string

text \<open>
  \<^verbatim>\<open>Generation\<close> and \<^verbatim>\<open>Status.ObservedGeneration\<close> are \<^verbatim>\<open>int64\<close>, \<^verbatim>\<open>Status.ReadyReplicas\<close>
  is \<^verbatim>\<open>int32\<close> and \<^verbatim>\<open>Spec.Replicas\<close> is \<^verbatim>\<open>*int32\<close> (\<open>None\<close> is the nil pointer). Go compares
  them as signed numbers, so every comparison goes through \<open>sint\<close>.
\<close>

record ReplicaSet =
  rs_Generation :: "64 word"
  rs_ObservedGeneration :: "64 word"
  rs_Replicas :: "32 word option"
  rs_ReadyReplicas :: "32 word"

record ReplicationController =
  rc_Generation :: "64 word"
  rc_ObservedGeneration :: "64 word"
  rc_Replicas :: "32 word option"
  rc_ReadyReplicas :: "32 word"

section \<open>The health checks\<close>

definition NamesAccepted :: string where "NamesAccepted = ''NamesAccepted''"
definition Established :: string where "Established = ''Established''"
definition Terminating :: string where "Terminating = ''Terminating''"
definition JobFailed :: string where "JobFailed = ''Failed''"
definition ConditionTrue :: string where "ConditionTrue = ''True''"
definition ConditionFalse :: string where "ConditionFalse = ''False''"
definition PodRunning :: string where "PodRunning = ''Running''"
definition PodSucceeded :: string where "PodSucceeded = ''Succeeded''"

definition trueCrdConditionTypes :: "string list" where
  "trueCrdConditionTypes = [NamesAccepted, Established]"

definition falseOptionalCrdConditionTypes :: "string list" where
  "falseOptionalCrdConditionTypes = [Terminating]"

definition healthyPodPhases :: "string list" where
  "healthyPodPhases = [PodRunning, PodSucceeded]"

fun getCustomResourceDefinitionCondition :: "Condition list \<Rightarrow> string \<Rightarrow> Condition option" where
  "getCustomResourceDefinitionCondition [] conditionType = None"
| "getCustomResourceDefinitionCondition (condition # conditions) conditionType =
     (if Type condition = conditionType then Some condition
      else getCustomResourceDefinitionCondition conditions conditionType)"

fun getJobCondition :: "Condition list \<Rightarrow> string \<Rightarrow> Condition option" where
  "getJobCondition [] conditionType = None"
| "getJobCondition (condition # conditions) conditionType =
     (if Type condition = conditionType then Some condition
      else getJobCondition conditions conditionType)"

definition requiredConditionMissing :: "(nat \<Rightarrow> bool) \<Rightarrow> string \<Rightarrow> string option" where
  "requiredConditionMissing printable conditionType =
     Some (''condition '' @ fmt_q printable conditionType @ '' is missing'')"

definition checkConditionState ::
  "(nat \<Rightarrow> bool) \<Rightarrow> string \<Rightarrow> string \<Rightarrow> string \<Rightarrow> string \<Rightarrow> string \<Rightarrow> string option" where
  "checkConditionState printable conditionType expected actual reason message =
     (if expected \<noteq> actual then
        Some (''condition '' @ fmt_q printable conditionType @ '' has invalid status '' @ actual
              @ '' (expected '' @ expected @ '') due to '' @ reason @ '': '' @ message)
      else None)"

text \<open>The first loop of \<^verbatim>\<open>CheckCustomResourceDefinition\<close>, over the required types.\<close>

fun checkTrueConditions :: "(nat \<Rightarrow> bool) \<Rightarrow> Condition list \<Rightarrow> string list \<Rightarrow> string option" where
  "checkTrueConditions printable conditions [] = None"
| "checkTrueConditions printable conditions (conditionType # rest) =
     (case getCustomResourceDefinitionCondition conditions conditionType of
        None \<Rightarrow> requiredConditionMissing printable conditionType
      | Some condition \<Rightarrow>
          (case checkConditionState printable conditionType ConditionTrue (Status condition)
                  (Reason condition) (Message condition) of
             Some err \<Rightarrow> Some err
           | None \<Rightarrow> checkTrueConditions printable conditions rest))"

text \<open>The second loop, over the optional types: a missing condition is skipped.\<close>

fun checkFalseOptionalConditions ::
  "(nat \<Rightarrow> bool) \<Rightarrow> Condition list \<Rightarrow> string list \<Rightarrow> string option" where
  "checkFalseOptionalConditions printable conditions [] = None"
| "checkFalseOptionalConditions printable conditions (conditionType # rest) =
     (case getCustomResourceDefinitionCondition conditions conditionType of
        None \<Rightarrow> checkFalseOptionalConditions printable conditions rest
      | Some condition \<Rightarrow>
          (case checkConditionState printable conditionType ConditionFalse (Status condition)
                  (Reason condition) (Message condition) of
             Some err \<Rightarrow> Some err
           | None \<Rightarrow> checkFalseOptionalConditions printable conditions rest))"

definition CheckCustomResourceDefinition ::
  "(nat \<Rightarrow> bool) \<Rightarrow> CustomResourceDefinition \<Rightarrow> string option" where
  "CheckCustomResourceDefinition printable crd =
     (case checkTrueConditions printable (crd_Conditions crd) trueCrdConditionTypes of
        Some err \<Rightarrow> Some err
      | None \<Rightarrow>
          checkFalseOptionalConditions printable (crd_Conditions crd)
            falseOptionalCrdConditionTypes)"

definition CheckJob :: "(nat \<Rightarrow> bool) \<Rightarrow> Job \<Rightarrow> string option" where
  "CheckJob printable job =
     (case getJobCondition (job_Conditions job) JobFailed of
        None \<Rightarrow> None
      | Some condition \<Rightarrow>
          checkConditionState printable JobFailed ConditionFalse (Status condition)
            (Reason condition) (Message condition))"

fun phaseIsHealthy :: "string \<Rightarrow> string list \<Rightarrow> bool" where
  "phaseIsHealthy phase [] = False"
| "phaseIsHealthy phase (healthyPhase # rest) =
     (if phase = healthyPhase then True else phaseIsHealthy phase rest)"

definition CheckPod :: "(nat \<Rightarrow> bool) \<Rightarrow> Pod \<Rightarrow> string option" where
  "CheckPod printable pod =
     (let phase = Phase pod in
      if phaseIsHealthy phase healthyPodPhases then None
      else Some (''pod is in invalid phase '' @ fmt_q printable phase
                 @ '' (expected one of '' @ fmt_q_list printable healthyPodPhases @ '')''))"

definition CheckReplicaSet :: "ReplicaSet \<Rightarrow> string option" where
  "CheckReplicaSet rs =
     (if sint (rs_ObservedGeneration rs) < sint (rs_Generation rs) then
        Some (''observed generation outdated ('' @ fmt_d (sint (rs_ObservedGeneration rs))
              @ ''/'' @ fmt_d (sint (rs_Generation rs)) @ '')'')
      else
        (case rs_Replicas rs of
           Some replicas \<Rightarrow>
             (if sint (rs_ReadyReplicas rs) < sint replicas
              then Some ''ReplicaSet does not have minimum availability''
              else None)
         | None \<Rightarrow> None))"

definition CheckReplicationController :: "ReplicationController \<Rightarrow> string option" where
  "CheckReplicationController rc =
     (if sint (rc_ObservedGeneration rc) < sint (rc_Generation rc) then
        Some (''observed generation outdated ('' @ fmt_d (sint (rc_ObservedGeneration rc))
              @ ''/'' @ fmt_d (sint (rc_Generation rc)) @ '')'')
      else
        (case rc_Replicas rc of
           Some replicas \<Rightarrow>
             (if sint (rc_ReadyReplicas rc) < sint replicas
              then Some ''ReplicationController does not have minimum availability''
              else None)
         | None \<Rightarrow> None))"

section \<open>The cluster seen through the client\<close>

text \<open>
  The reconciler talks to the API server through \<^verbatim>\<open>client.Client\<close>, which is not code of this
  repository. The model of that collaborator is the interface the specification names: get a
  Secret by namespaced name, list the ManagedResources of a namespace, update a Secret with a
  check of its resource version. A Secret is stored under its namespaced name; what is stored
  is the rest of the object: the resource version, the finalizers, and \<open>Data\<close> for every other
  field. Reads are served from the store as it is at the moment of the call.
\<close>

type_synonym NamespacedName = "string \<times> string"

record SecretBody =
  ResourceVersion :: nat
  Finalizers :: "string list"
  Data :: string

record Secret = SecretBody +
  Namespace :: string
  Name :: string

definition secret_of :: "NamespacedName \<Rightarrow> SecretBody \<Rightarrow> Secret" where
  "secret_of key b =
     \<lparr>ResourceVersion = ResourceVersion b, Finalizers = Finalizers b, Data = Data b,
      Namespace = fst key, Name = snd key\<rparr>"

definition body_of :: "Secret \<Rightarrow> SecretBody" where
  "body_of s = \<lparr>ResourceVersion = ResourceVersion s, Finalizers = Finalizers s, Data = Data s\<rparr>"

definition key_of :: "Secret \<Rightarrow> NamespacedName" where
  "key_of s = (Namespace s, Name s)"

text \<open>
  A ManagedResource, as far as the reconciler reads it: its namespace and name, its class and
  the names of \<^verbatim>\<open>Spec.SecretRefs\<close>.
\<close>

record ManagedResource =
  mr_Namespace :: string
  mr_Name :: string
  mr_Class :: "string option"
  mr_SecretRefs :: "string list"

datatype apierror = NotFound | Conflict | ServerError string | ErrWaitTimeout

text \<open>
  Other clients and faults are a schedule of events. Every call of the client takes the next
  event of the schedule (none when the schedule is used up): the event happens, then the call
  is served. \<open>Fail\<close> makes the call itself fail with an error that is neither not-found nor a
  conflict. The other events are writes of other clients; like every write they take a new
  revision of the store, which becomes the resource version of the written Secret.
\<close>

datatype event =
    Quiet
  | Fail string
  | PutSecret NamespacedName "string list" string
  | DeleteSecret NamespacedName
  | SetResources "ManagedResource list"

datatype call =
    Get NamespacedName "apierror + Secret"
  | List string "apierror + ManagedResource list"
  | Update Secret "SecretBody option" "apierror option"
  | Sleep nat

datatype logentry =
    Info string "(string \<times> string) list"
  | Error "apierror option" string

text \<open>
  \<open>calls\<close> is the trace of the client calls (and of the pauses between retries) in the order
  they were made, each with what it returned; an \<open>Update\<close> also records what the store held
  under the key when the call was served. \<open>log\<close> is what the logger received: the message and
  the key/value pairs of an \<^verbatim>\<open>Info\<close> line, the error and the message of an \<^verbatim>\<open>Error\<close> line. The
  pair \<^verbatim>\<open>secret\<close> that the logger of Reconcile carries on every line is left out.
\<close>

record world =
  secrets :: "NamespacedName \<rightharpoonup> SecretBody"
  resources :: "ManagedResource list"
  revision :: nat
  schedule :: "event list"
  calls :: "call list"
  log :: "logentry list"

fun apply_event :: "event \<Rightarrow> world \<Rightarrow> world" where
  "apply_event Quiet w = w"
| "apply_event (Fail m) w = w"
| "apply_event (PutSecret key fs d) w =
     w\<lparr>secrets := (secrets w)(key \<mapsto> \<lparr>ResourceVersion = Suc (revision w), Finalizers = fs, Data = d\<rparr>),
       revision := Suc (revision w)\<rparr>"
| "apply_event (DeleteSecret key) w =
     w\<lparr>secrets := (secrets w)(key := None), revision := Suc (revision w)\<rparr>"
| "apply_event (SetResources rs) w = w\<lparr>resources := rs, revision := Suc (revision w)\<rparr>"

fun fault_of :: "event \<Rightarrow> apierror option" where
  "fault_of (Fail m) = Some (ServerError m)"
| "fault_of e = None"

definition begin_call :: "world \<Rightarrow> apierror option \<times> world" where
  "begin_call w =
     (case schedule w of
        [] \<Rightarrow> (None, w)
      | e # es \<Rightarrow> (fault_of e, apply_event e (w\<lparr>schedule := es\<rparr>)))"

definition record_call :: "call \<Rightarrow> world \<Rightarrow> world" where
  "record_call c w = w\<lparr>calls := calls w @ [c]\<rparr>"

definition client_Get :: "NamespacedName \<Rightarrow> world \<Rightarrow> (apierror + Secret) \<times> world" where
  "client_Get key w =
     (case begin_call w of (fault, w1) \<Rightarrow>
        (let res = (case fault of
                      Some err \<Rightarrow> Inl err
                    | None \<Rightarrow> (case secrets w1 key of
                                 None \<Rightarrow> Inl NotFound
                               | Some b \<Rightarrow> Inr (secret_of key b)))
         in (res, record_call (Get key res) w1)))"

definition client_List ::
  "string \<Rightarrow> world \<Rightarrow> (apierror + ManagedResource list) \<times> world" where
  "client_List ns w =
     (case begin_call w of (fault, w1) \<Rightarrow>
        (let res = (case fault of
                      Some err \<Rightarrow> Inl err
                    | None \<Rightarrow> Inr (filter (\<lambda>r. mr_Namespace r = ns) (resources w1)))
         in (res, record_call (List ns res) w1)))"

definition client_Update :: "Secret \<Rightarrow> world \<Rightarrow> apierror option \<times> world" where
  "client_Update obj w =
     (case begin_call w of (fault, w1) \<Rightarrow>
        (let held = secrets w1 (key_of obj) in
         case fault of
           Some err \<Rightarrow> (Some err, record_call (Update obj held (Some err)) w1)
         | None \<Rightarrow>
             (case held of
                None \<Rightarrow> (Some NotFound, record_call (Update obj held (Some NotFound)) w1)
              | Some b \<Rightarrow>
                  if ResourceVersion b \<noteq> ResourceVersion obj then
                    (Some Conflict, record_call (Update obj held (Some Conflict)) w1)
                  else
                    (None, record_call (Update obj held None)
                       (w1\<lparr>secrets := (secrets w1)(key_of obj \<mapsto>
                               (body_of obj)\<lparr>ResourceVersion := Suc (revision w1)\<rparr>),
                           revision := Suc (revision w1)\<rparr>)))))"

section \<open>The ClassFilter and the string sets\<close>

text \<open>
  \<^verbatim>\<open>ClassFilter\<close> is a type of this repository whose source is not among the files at hand.
  The reconciler calls its two methods only, so the filter is the pair of what they return:
  \<open>Responsible\<close> decides whether the reconciler owns a ManagedResource, \<open>FinalizerName\<close> is
  the finalizer of the reconciler's class.
\<close>

record ClassFilter =
  Responsible :: "ManagedResource \<Rightarrow> bool"
  FinalizerName :: string

text \<open>
  \<^verbatim>\<open>sets.String\<close> of apimachinery, as a list without duplicates. Go leaves the order of
  \<^verbatim>\<open>UnsortedList\<close> open; the model fixes one order, and the theorems below speak of membership
  only.
\<close>

definition NewString :: "string list \<Rightarrow> string list" where
  "NewString xs = remdups xs"

definition Has :: "string list \<Rightarrow> string \<Rightarrow> bool" where
  "Has s x = (x \<in> set s)"

definition Insert :: "string list \<Rightarrow> string \<Rightarrow> string list" where
  "Insert s x = (if x \<in> set s then s else s @ [x])"

definition Delete :: "string list \<Rightarrow> string \<Rightarrow> string list" where
  "Delete s x = removeAll x s"

definition UnsortedList :: "string list \<Rightarrow> string list" where
  "UnsortedList s = s"

section \<open>TryUpdate\<close>

text \<open>
  \<^verbatim>\<open>retry.DefaultBackoff\<close> of client-go: four steps, 10 ms at first, times five after each
  step. Durations are nanoseconds, as \<^verbatim>\<open>time.Duration\<close> counts them; the random jitter that
  client-go adds to each pause is left out.
\<close>

record Backoff =
  Steps :: nat
  Duration :: nat
  Factor :: nat

definition Millisecond :: nat where "Millisecond = 1000000"
definition Second :: nat where "Second = 1000000000"

definition DefaultBackoff :: Backoff where
  "DefaultBackoff = \<lparr>Steps = 4, Duration = 10 * Millisecond, Factor = 5\<rparr>"

definition sleep :: "nat \<Rightarrow> world \<Rightarrow> world" where
  "sleep d w = record_call (Sleep d) w"

text \<open>
  Modelled from the spec: \<^verbatim>\<open>utils.TryUpdate\<close> is code of this repository that is not among
  the sources. The specification describes it as a read-modify-write against the client with
  the Secret's concurrency token: the object is read, the transformation is applied to what
  was read, and the result is written; on a conflict the object is read again and the
  transformation is retried, up to a bounded number of attempts with a growing pause (a pause
  follows every conflict). When the attempts are used up the error is \<^verbatim>\<open>wait.ErrWaitTimeout\<close>;
  any other error of the read or of the write ends the loop and is returned.
\<close>

fun tryUpdateLoop ::
  "nat \<Rightarrow> nat \<Rightarrow> nat \<Rightarrow> NamespacedName \<Rightarrow> (Secret \<Rightarrow> Secret) \<Rightarrow> world \<Rightarrow> apierror option \<times> world" where
  "tryUpdateLoop 0 duration factor key transform w = (Some ErrWaitTimeout, w)"
| "tryUpdateLoop (Suc steps) duration factor key transform w =
     (case client_Get key w of
        (Inl err, w1) \<Rightarrow> (Some err, w1)
      | (Inr obj, w1) \<Rightarrow>
          (case client_Update (transform obj) w1 of
             (None, w2) \<Rightarrow> (None, w2)
           | (Some err, w2) \<Rightarrow>
               if err = Conflict then
                 tryUpdateLoop steps (duration * factor) factor key transform (sleep duration w2)
               else (Some err, w2)))"

text \<open>
  Modelled from the spec: the entry point of the same missing code, called as in line 106 with
  the backoff, the object (from which the key is taken) and the transformation.
\<close>

definition TryUpdate ::
  "Backoff \<Rightarrow> Secret \<Rightarrow> (Secret \<Rightarrow> Secret) \<Rightarrow> world \<Rightarrow> apierror option \<times> world" where
  "TryUpdate backoff obj transform w =
     tryUpdateLoop (Steps backoff) (Duration backoff) (Factor backoff) (key_of obj) transform w"

section \<open>The Secret reconciler\<close>

record SecretReconciler =
  classFilter :: ClassFilter

record Result =
  Requeue :: bool
  RequeueAfter :: nat

datatype reconcile_error =
    CouldNotFetchSecret apierror
  | CouldNotFetchManagedResources apierror

definition logInfo :: "string \<Rightarrow> (string \<times> string) list \<Rightarrow> world \<Rightarrow> world" where
  "logInfo msg kvs w = w\<lparr>log := log w @ [Info msg kvs]\<rparr>"

definition logError :: "apierror option \<Rightarrow> string \<Rightarrow> world \<Rightarrow> world" where
  "logError err msg w = w\<lparr>log := log w @ [Error err msg]\<rparr>"

definition IgnoreNotFound :: "apierror option \<Rightarrow> apierror option" where
  "IgnoreNotFound err = (if err = Some NotFound then None else err)"

text \<open>
  The two loops that look for a reference (lines 81 to 90). The inner loop stops at the first
  reference that matches; the \<^verbatim>\<open>break\<close> leaves the inner loop only, and the flag is never
  reset.
\<close>

fun refsLoop :: "ClassFilter \<Rightarrow> Secret \<Rightarrow> ManagedResource \<Rightarrow> string list \<Rightarrow> bool \<Rightarrow> bool" where
  "refsLoop cls secret resource [] secretIsReferenced = secretIsReferenced"
| "refsLoop cls secret resource (ref # refs) secretIsReferenced =
     (if ref = Name secret \<and> Responsible cls resource then True
      else refsLoop cls secret resource refs secretIsReferenced)"

fun resourcesLoop :: "ClassFilter \<Rightarrow> Secret \<Rightarrow> ManagedResource list \<Rightarrow> bool \<Rightarrow> bool" where
  "resourcesLoop cls secret [] secretIsReferenced = secretIsReferenced"
| "resourcesLoop cls secret (resource # items) secretIsReferenced =
     resourcesLoop cls secret items
       (refsLoop cls secret resource (mr_SecretRefs resource) secretIsReferenced)"

text \<open>
  The function passed to TryUpdate (lines 106 to 114). It reads the finalizers of the Secret
  as TryUpdate holds it at that moment; \<open>addFinalizer\<close> and \<open>removeFinalizer\<close> are the
  variables of the enclosing function, set before TryUpdate is called.
\<close>

definition updateFinalizers :: "bool \<Rightarrow> bool \<Rightarrow> string \<Rightarrow> Secret \<Rightarrow> Secret" where
  "updateFinalizers addFinalizer removeFinalizer controllerFinalizer secret =
     (let secretFinalizers = NewString (Finalizers secret);
          secretFinalizers' =
            (if addFinalizer then Insert secretFinalizers controllerFinalizer
             else if removeFinalizer then Delete secretFinalizers controllerFinalizer
             else secretFinalizers)
      in secret\<lparr>Finalizers := UnsortedList secretFinalizers'\<rparr>)"

definition Reconcile ::
  "SecretReconciler \<Rightarrow> NamespacedName \<Rightarrow> world \<Rightarrow> (Result \<times> reconcile_error option) \<times> world" where
  "Reconcile r req w =
     (case client_Get req w of
        (Inl err, w1) \<Rightarrow>
          if err = NotFound then
            ((\<lparr>Requeue = False, RequeueAfter = 0\<rparr>, None),
             logInfo ''Stopping reconciliation of Secret, as it has been deleted'' [] w1)
          else ((\<lparr>Requeue = False, RequeueAfter = 0\<rparr>, Some (CouldNotFetchSecret err)), w1)
      | (Inr secret, w1) \<Rightarrow>
          (case client_List (Namespace secret) w1 of
             (Inl err, w2) \<Rightarrow>
               ((\<lparr>Requeue = False, RequeueAfter = 0\<rparr>, Some (CouldNotFetchManagedResources err)), w2)
           | (Inr resourceList, w2) \<Rightarrow>
               (let secretIsReferenced = resourcesLoop (classFilter r) secret resourceList False;
                    controllerFinalizer = FinalizerName (classFilter r);
                    secretFinalizers = NewString (Finalizers secret);
                    addFinalizer = (secretIsReferenced \<and> \<not> Has secretFinalizers controllerFinalizer);
                    removeFinalizer =
                      (\<not> addFinalizer \<and> \<not> secretIsReferenced \<and> Has secretFinalizers controllerFinalizer);
                    w3 =
                      (if addFinalizer then
                         logInfo ''adding finalizer to secret because it is referenced by a ManagedResource''
                           [(''finalizer'', controllerFinalizer)] w2
                       else if removeFinalizer then
                         logInfo ''removing finalizer from secret because it is not referenced by a ManagedResource of this class''
                           [(''finalizer'', controllerFinalizer)] w2
                       else w2)
                in if addFinalizer \<or> removeFinalizer then
                     (case TryUpdate DefaultBackoff secret
                             (updateFinalizers addFinalizer removeFinalizer controllerFinalizer) w3 of
                        (err, w4) \<Rightarrow>
                          if IgnoreNotFound err \<noteq> None then
                            ((\<lparr>Requeue = False, RequeueAfter = 5 * Second\<rparr>, None),
                             logError err ''failed to update finalizers of Secret'' w4)
                          else ((\<lparr>Requeue = False, RequeueAfter = 0\<rparr>, None), w4))
                   else ((\<lparr>Requeue = False, RequeueAfter = 0\<rparr>, None), w3))))"

section \<open>Notions used in the statements about the reconciler\<close>

text \<open>What a call returned: its error, or \<open>None\<close> when it succeeded (a pause returns nothing).\<close>

fun returned :: "call \<Rightarrow> apierror option" where
  "returned (Get key res) = (case res of Inl err \<Rightarrow> Some err | Inr obj \<Rightarrow> None)"
| "returned (List ns res) = (case res of Inl err \<Rightarrow> Some err | Inr items \<Rightarrow> None)"
| "returned (Update obj held res) = res"
| "returned (Sleep d) = None"

text \<open>The calls made between an earlier world and a later one.\<close>

definition new_calls :: "world \<Rightarrow> world \<Rightarrow> call list" where
  "new_calls w w' = drop (length (calls w)) (calls w')"

text \<open>The line that Reconcile logs before it calls TryUpdate, for adding and for removing.\<close>

definition decisionLog :: "bool \<Rightarrow> string" where
  "decisionLog referenced =
     (if referenced then ''adding finalizer to secret because it is referenced by a ManagedResource''
      else ''removing finalizer from secret because it is not referenced by a ManagedResource of this class'')"

text \<open>
  The shape of the trace of the TryUpdate loop with \<open>n\<close> attempts left, and the error it returns:
  a read that fails; or a read and a write that does not conflict; or a read, a write that
  conflicts and a pause, followed by the trace of the remaining attempts with the next pause.
\<close>

fun retry_trace ::
  "nat \<Rightarrow> nat \<Rightarrow> nat \<Rightarrow> NamespacedName \<Rightarrow> (Secret \<Rightarrow> Secret) \<Rightarrow> call list \<Rightarrow> apierror option \<Rightarrow> bool" where
  "retry_trace 0 d f key t cs e = (cs = [] \<and> e = Some ErrWaitTimeout)"
| "retry_trace (Suc n) d f key t cs e =
     ((\<exists>err. cs = [Get key (Inl err)] \<and> e = Some err)
      \<or> (\<exists>s held. cs = [Get key (Inr s), Update (t s) held e] \<and> key_of s = key
            \<and> e \<noteq> Some Conflict)
      \<or> (\<exists>s held rest. cs = Get key (Inr s) # Update (t s) held (Some Conflict) # Sleep d # rest
            \<and> key_of s = key \<and> retry_trace n (d * f) f key t rest e))"

text \<open>
  An event that is no write of another client. A schedule of such events is a run with no
  concurrent external mutation; calls may still fail.
\<close>

fun quiet :: "event \<Rightarrow> bool" where
  "quiet Quiet = True"
| "quiet (Fail m) = True"
| "quiet e = False"

text \<open>
  The state that the reconciler is to reach for a Secret: if the Secret exists, it carries the
  finalizer of the class exactly if a ManagedResource of its namespace, for which the filter is
  responsible, names it among its secretRefs.
\<close>

definition finalizer_matches_references :: "ClassFilter \<Rightarrow> NamespacedName \<Rightarrow> world \<Rightarrow> bool" where
  "finalizer_matches_references cls key w =
     (case secrets w key of
        None \<Rightarrow> True
      | Some b \<Rightarrow>
          (FinalizerName cls \<in> set (Finalizers b)) =
          (\<exists>m\<in>set (resources w). mr_Namespace m = fst key \<and> Responsible cls m
              \<and> snd key \<in> set (mr_SecretRefs m)))"

text \<open>
  Every \<open>Update\<close> of a trace comes directly after a \<open>Get\<close> of the key that returned a Secret,
  and submits the transformation of that Secret.
\<close>

fun writes_follow_reads :: "NamespacedName \<Rightarrow> (Secret \<Rightarrow> Secret) \<Rightarrow> call list \<Rightarrow> bool" where
  "writes_follow_reads key t [] = True"
| "writes_follow_reads key t (Update obj held res # cs) = False"
| "writes_follow_reads key t (Get k (Inr s) # Update obj held res # cs) =
     (k = key \<and> obj = t s \<and> writes_follow_reads key t cs)"
| "writes_follow_reads key t (c # cs) = writes_follow_reads key t cs"

text \<open>The writes of a trace, and its pauses in the order they were made.\<close>

fun is_Update :: "call \<Rightarrow> bool" where
  "is_Update (Update obj held res) = True"
| "is_Update c = False"

fun pauses :: "call list \<Rightarrow> nat list" where
  "pauses [] = []"
| "pauses (Sleep d # cs) = d # pauses cs"
| "pauses (c # cs) = pauses cs"

text \<open>The pauses of a backoff of \<open>n\<close> steps that starts at \<open>d\<close> and grows by the factor \<open>f\<close>.\<close>

fun backoff_pauses :: "nat \<Rightarrow> nat \<Rightarrow> nat \<Rightarrow> nat list" where
  "backoff_pauses 0 d f = []"
| "backoff_pauses (Suc n) d f = d # backoff_pauses n (d * f) f"

text \<open>
  No stored Secret has a resource version beyond the revision of the store. It holds in a
  store that gives every write the next revision, and every call and event keeps it.
\<close>

definition versions_bounded :: "world \<Rightarrow> bool" where
  "versions_bounded w = (\<forall>key b. secrets w key = Some b \<longrightarrow> ResourceVersion b \<le> revision w)"

text \<open>
  Modelled from the spec: the ClassFilter of a reconciler for the default class, which is
  responsible for a ManagedResource with no class or with the default class and whose finalizer
  is the fixed base identifier. It is the filter of the examples below; the theorems hold for
  every filter.
\<close>

definition example_filter :: ClassFilter where
  "example_filter =
     \<lparr>Responsible = (\<lambda>m. mr_Class m = None \<or> mr_Class m = Some ''resources''),
      FinalizerName = ''resources.gardener.cloud/gardener-resource-manager''\<rparr>"

definition example_reconciler :: SecretReconciler where
  "example_reconciler = \<lparr>classFilter = example_filter\<rparr>"

definition db_creds :: NamespacedName where
  "db_creds = (''shoot'', ''db-creds'')"

definition web :: ManagedResource where
  "web = \<lparr>mr_Namespace = ''shoot'', mr_Name = ''web'', mr_Class = None,
          mr_SecretRefs = [''db-creds'']\<rparr>"

text \<open>
  A world for the examples: the Secret \<^verbatim>\<open>shoot/db-creds\<close> with the given finalizers, the given
  ManagedResources and the given schedule.
\<close>

definition example_world :: "string list \<Rightarrow> ManagedResource list \<Rightarrow> event list \<Rightarrow> world" where
  "example_world fs rs evs =
     \<lparr>secrets = [db_creds \<mapsto> \<lparr>ResourceVersion = 3, Finalizers = fs, Data = ''payload''\<rparr>],
      resources = rs, revision = 7, schedule = evs, calls = [], log = []\<rparr>"

section \<open>The messages as the specification words them\<close>

text \<open>
  The double quote cannot be written inside a string literal; \<open>dq\<close> is the string that holds
  just this character. The next definitions are the failure texts in the wording of the
  specification, to be compared with what the code builds.
\<close>

definition dq :: string where "dq = [CHR 0x22]"

definition msg_condition_missing :: "string \<Rightarrow> string" where
  "msg_condition_missing ty = ''condition '' @ dq @ ty @ dq @ '' is missing''"

definition msg_invalid_status :: "string \<Rightarrow> string \<Rightarrow> string \<Rightarrow> string \<Rightarrow> string \<Rightarrow> string" where
  "msg_invalid_status ty actual expected reason message =
     ''condition '' @ dq @ ty @ dq @ '' has invalid status '' @ actual @ '' (expected '' @ expected
     @ '') due to '' @ reason @ '': '' @ message"

definition msg_invalid_phase :: "string \<Rightarrow> string" where
  "msg_invalid_phase quoted =
     ''pod is in invalid phase '' @ quoted @ '' (expected one of ['' @ dq @ ''Running'' @ dq
     @ '' '' @ dq @ ''Succeeded'' @ dq @ ''])''"

text \<open>
  The policy that the specification gives for ReplicaSet and ReplicationController alike,
  with the kind name as a parameter: the observed generation is checked first, the ready
  replicas second.
\<close>

definition replicaPolicy_spec :: "string \<Rightarrow> int \<Rightarrow> int \<Rightarrow> int option \<Rightarrow> int \<Rightarrow> string option" where
  "replicaPolicy_spec kind generation observed replicas ready =
     (if observed < generation then
        Some (''observed generation outdated ('' @ fmt_d observed @ ''/'' @ fmt_d generation @ '')'')
      else if (case replicas of None \<Rightarrow> False | Some n \<Rightarrow> ready < n) then
        Some (kind @ '' does not have minimum availability'')
      else None)"

section \<open>Properties of the health checks\<close>

subsection \<open>Quoting\<close>

lemma hex_digits_2:
  "hex_digits 2 r = [''0123456789abcdef'' ! ((r div 16) mod 16), ''0123456789abcdef'' ! (r mod 16)]"
proof -
  have n: "(2::nat) = Suc (Suc 0)" by simp
  show ?thesis unfolding n by simp
qed

lemma hex_digits_4:
  "hex_digits 4 r =
     [''0123456789abcdef'' ! ((r div 4096) mod 16), ''0123456789abcdef'' ! ((r div 256) mod 16),
      ''0123456789abcdef'' ! ((r div 16) mod 16), ''0123456789abcdef'' ! (r mod 16)]"
proof -
  have n: "(4::nat) = Suc (Suc (Suc (Suc 0)))" by simp
  show ?thesis unfolding n by simp
qed

lemma hex_digits_8:
  "hex_digits 8 r =
     [''0123456789abcdef'' ! ((r div 268435456) mod 16),
      ''0123456789abcdef'' ! ((r div 16777216) mod 16),
      ''0123456789abcdef'' ! ((r div 1048576) mod 16),
      ''0123456789abcdef'' ! ((r div 65536) mod 16),
      ''0123456789abcdef'' ! ((r div 4096) mod 16), ''0123456789abcdef'' ! ((r div 256) mod 16),
      ''0123456789abcdef'' ! ((r div 16) mod 16), ''0123456789abcdef'' ! (r mod 16)]"
proof -
  have n: "(8::nat) = Suc (Suc (Suc (Suc (Suc (Suc (Suc (Suc 0)))))))" by simp
  show ?thesis unfolding n by simp
qed

text \<open>The facts that evaluate \<open>fmt_q\<close> on a given string.\<close>

lemmas quote_defs = fmt_q_def appendQuotedWith_def appendEscapedRune_def IsPrint_def
  AppendRune_def ValidRune_def RuneError_def Let_def DecodeRuneInString.simps
  hex_digits_2 hex_digits_4 hex_digits_8 char_of_def bit_Suc_0_iff

text \<open>Plain text is copied between the quotes, whatever the Unicode tables say.\<close>

lemma quoteRunes_plain: "plain_ascii s \<Longrightarrow> quoteRunes printable s = s"
proof (induction s)
  case Nil
  then show ?case by simp
next
  case (Cons c s)
  have a: "0x20 \<le> (of_char c :: nat)" "(of_char c :: nat) \<le> 0x7E" "c \<noteq> CHR 0x22"
    "c \<noteq> CHR 0x5C"
    using Cons.prems by (simp_all add: plain_ascii_def)
  have c: "c = char_of (of_char c :: nat)" by simp
  have "(of_char c :: nat) \<noteq> 0x22"
  proof
    assume "(of_char c :: nat) = 0x22"
    then have "c = char_of (0x22 :: nat)" using c by simp
    then show False using a(3) by (simp add: char_of_def bit_Suc_0_iff)
  qed
  moreover have "(of_char c :: nat) \<noteq> 0x5C"
  proof
    assume "(of_char c :: nat) = 0x5C"
    then have "c = char_of (0x5C :: nat)" using c by simp
    then show False using a(4) by (simp add: char_of_def bit_Suc_0_iff)
  qed
  ultimately have b: "(of_char c :: nat) \<noteq> 0x22" "(of_char c :: nat) \<noteq> 0x5C" by auto
  have "quoteRunes printable s = s" using Cons by (simp add: plain_ascii_def)
  then show ?case using a b
    by (simp add: appendEscapedRune_def IsPrint_def AppendRune_def RuneError_def Let_def)
qed

lemma fmt_q_plain_ascii: "plain_ascii s \<Longrightarrow> fmt_q printable s = dq @ s @ dq"
  by (simp add: fmt_q_def appendQuotedWith_def dq_def quoteRunes_plain)

lemma fmt_q_plain: "fmt_q printable ''NamesAccepted'' = dq @ ''NamesAccepted'' @ dq"
  "fmt_q printable ''Established'' = dq @ ''Established'' @ dq"
  "fmt_q printable ''Terminating'' = dq @ ''Terminating'' @ dq"
  "fmt_q printable ''Failed'' = dq @ ''Failed'' @ dq"
  "fmt_q printable ''Running'' = dq @ ''Running'' @ dq"
  "fmt_q printable ''Succeeded'' = dq @ ''Succeeded'' @ dq"
  by (simp_all add: fmt_q_plain_ascii plain_ascii_def)

subsection \<open>The lookups\<close>

lemma get_crd_find:
  "getCustomResourceDefinitionCondition cs t = find (\<lambda>c. Type c = t) cs"
  by (induction cs) auto

lemma get_job_find: "getJobCondition cs t = find (\<lambda>c. Type c = t) cs"
  by (induction cs) auto

lemma get_crd_append:
  "getCustomResourceDefinitionCondition (xs @ ys) t =
     (case getCustomResourceDefinitionCondition xs t of
        Some c \<Rightarrow> Some c
      | None \<Rightarrow> getCustomResourceDefinitionCondition ys t)"
  by (induction xs) auto

lemma get_crd_present:
  "t \<in> Type ` set xs \<Longrightarrow> getCustomResourceDefinitionCondition xs t \<noteq> None"
  by (induction xs) auto

lemma get_crd_dup:
  "Type d \<in> Type ` set xs \<Longrightarrow>
   getCustomResourceDefinitionCondition (xs @ d # ys) t = getCustomResourceDefinitionCondition (xs @ ys) t"
  using get_crd_present [of "Type d" xs]
  by (cases "Type d = t") (auto simp: get_crd_append split: option.splits)

lemma get_job_append:
  "getJobCondition (xs @ ys) t =
     (case getJobCondition xs t of Some c \<Rightarrow> Some c | None \<Rightarrow> getJobCondition ys t)"
  by (induction xs) auto

lemma get_job_present: "t \<in> Type ` set xs \<Longrightarrow> getJobCondition xs t \<noteq> None"
  by (induction xs) auto

lemma get_job_dup:
  "Type d \<in> Type ` set xs \<Longrightarrow> getJobCondition (xs @ d # ys) t = getJobCondition (xs @ ys) t"
  using get_job_present [of "Type d" xs]
  by (cases "Type d = t") (auto simp: get_job_append split: option.splits)

lemma checkTrue_cong:
  "(\<And>t. getCustomResourceDefinitionCondition cs t = getCustomResourceDefinitionCondition cs' t) \<Longrightarrow>
   checkTrueConditions printable cs ts = checkTrueConditions printable cs' ts"
  by (induction ts) (auto split: option.splits)

lemma checkFalse_cong:
  "(\<And>t. getCustomResourceDefinitionCondition cs t = getCustomResourceDefinitionCondition cs' t) \<Longrightarrow>
   checkFalseOptionalConditions printable cs ts = checkFalseOptionalConditions printable cs' ts"
  by (induction ts) (auto split: option.splits)

lemma get_crd_distinct:
  "distinct (map Type cs) \<Longrightarrow>
   getCustomResourceDefinitionCondition cs t = Some c \<longleftrightarrow> c \<in> set cs \<and> Type c = t"
  by (induction cs) (auto simp: image_iff)

lemma get_crd_None:
  "getCustomResourceDefinitionCondition cs t = None \<longleftrightarrow> (\<forall>c\<in>set cs. Type c \<noteq> t)"
  by (induction cs) auto

subsection \<open>The checks, unfolded\<close>

lemma CheckCustomResourceDefinition_unfold:
  "CheckCustomResourceDefinition printable crd =
     (case getCustomResourceDefinitionCondition (crd_Conditions crd) ''NamesAccepted'' of
        None \<Rightarrow> Some (msg_condition_missing ''NamesAccepted'')
      | Some na \<Rightarrow>
          if Status na \<noteq> ''True'' then
            Some (msg_invalid_status ''NamesAccepted'' (Status na) ''True'' (Reason na) (Message na))
          else
            (case getCustomResourceDefinitionCondition (crd_Conditions crd) ''Established'' of
               None \<Rightarrow> Some (msg_condition_missing ''Established'')
             | Some es \<Rightarrow>
                 if Status es \<noteq> ''True'' then
                   Some (msg_invalid_status ''Established'' (Status es) ''True'' (Reason es) (Message es))
                 else
                   (case getCustomResourceDefinitionCondition (crd_Conditions crd) ''Terminating'' of
                      None \<Rightarrow> None
                    | Some tm \<Rightarrow>
                        if Status tm \<noteq> ''False'' then
                          Some (msg_invalid_status ''Terminating'' (Status tm) ''False'' (Reason tm) (Message tm))
                        else None)))"
  by (simp add: CheckCustomResourceDefinition_def trueCrdConditionTypes_def
      falseOptionalCrdConditionTypes_def NamesAccepted_def Established_def Terminating_def
      ConditionTrue_def ConditionFalse_def requiredConditionMissing_def checkConditionState_def
      msg_condition_missing_def msg_invalid_status_def fmt_q_plain
      split: option.splits)

lemma CheckJob_unfold:
  "CheckJob printable job =
     (case getJobCondition (job_Conditions job) ''Failed'' of
        None \<Rightarrow> None
      | Some c \<Rightarrow>
          if Status c \<noteq> ''False'' then
            Some (msg_invalid_status ''Failed'' (Status c) ''False'' (Reason c) (Message c))
          else None)"
  by (simp add: CheckJob_def JobFailed_def ConditionFalse_def checkConditionState_def
      msg_invalid_status_def fmt_q_plain split: option.splits)

subsection \<open>The claims\<close>

text \<open>
  Claim C4. CheckReplicaSet and CheckReplicationController return \<^verbatim>\<open>nil\<close> exactly when the
  observed generation is not behind the generation and the ready replicas reach
  \<^verbatim>\<open>spec.replicas\<close> where that is set. The checks run in the order of the source: an outdated
  observed generation gives "observed generation outdated (observed/generation)", and
  otherwise too few ready replicas give "Kind does not have minimum availability". The two
  functions are the same policy, \<open>replicaPolicy_spec\<close>, applied to their kind name.
\<close>

theorem replica_checks_policy:
  "(CheckReplicaSet rs = None \<longleftrightarrow>
      sint (rs_Generation rs) \<le> sint (rs_ObservedGeneration rs)
      \<and> (rs_Replicas rs = None
         \<or> (\<exists>n. rs_Replicas rs = Some n \<and> sint n \<le> sint (rs_ReadyReplicas rs))))
   \<and> (CheckReplicationController rc = None \<longleftrightarrow>
      sint (rc_Generation rc) \<le> sint (rc_ObservedGeneration rc)
      \<and> (rc_Replicas rc = None
         \<or> (\<exists>n. rc_Replicas rc = Some n \<and> sint n \<le> sint (rc_ReadyReplicas rc))))
   \<and> CheckReplicaSet rs =
       replicaPolicy_spec ''ReplicaSet'' (sint (rs_Generation rs)) (sint (rs_ObservedGeneration rs))
         (map_option sint (rs_Replicas rs)) (sint (rs_ReadyReplicas rs))
   \<and> CheckReplicationController rc =
       replicaPolicy_spec ''ReplicationController'' (sint (rc_Generation rc))
         (sint (rc_ObservedGeneration rc)) (map_option sint (rc_Replicas rc))
         (sint (rc_ReadyReplicas rc))"
  by (auto simp: CheckReplicaSet_def CheckReplicationController_def replicaPolicy_spec_def
      split: option.splits)

text \<open>
  Scenario F of the specification, and a ReplicationController whose observed generation is
  behind (and negative).
\<close>

theorem replica_checks_policy_witness:
  "CheckReplicaSet \<lparr>rs_Generation = 7, rs_ObservedGeneration = 7, rs_Replicas = Some 3,
      rs_ReadyReplicas = 2\<rparr> = Some ''ReplicaSet does not have minimum availability''
   \<and> CheckReplicationController \<lparr>rc_Generation = 2, rc_ObservedGeneration = - 1,
      rc_Replicas = Some 3, rc_ReadyReplicas = 2\<rparr> = Some ''observed generation outdated (-1/2)''"
  using replica_checks_policy [of
      "\<lparr>rs_Generation = 7, rs_ObservedGeneration = 7, rs_Replicas = Some 3, rs_ReadyReplicas = 2\<rparr>"
      "\<lparr>rc_Generation = 2, rc_ObservedGeneration = - 1, rc_Replicas = Some 3, rc_ReadyReplicas = 2\<rparr>"]
  by (simp add: replicaPolicy_spec_def fmt_d_def fmt_nat.simps)

text \<open>
  Claim C5. CheckCustomResourceDefinition returns \<^verbatim>\<open>nil\<close> exactly when the NamesAccepted and
  the Established condition are found with status True and the Terminating condition is not
  found or has status False. The condition of a type is the one the lookup of the source
  returns; where every type occurs at most once in the list, that is the one condition of
  this type in the list (second conjunct). The last conjunct gives the error in every case:
  the checks run in the order NamesAccepted, Established, Terminating and the first that
  fails decides, with the text "condition "type" is missing" for a missing required
  condition and "condition "type" has invalid status actual (expected expected) due to
  reason: message" for a wrong status. The three types are plain text, so this holds for
  every Unicode table \<open>printable\<close>.
\<close>

theorem CheckCustomResourceDefinition_verdict:
  "(CheckCustomResourceDefinition printable crd = None \<longleftrightarrow>
      (\<exists>c. getCustomResourceDefinitionCondition (crd_Conditions crd) ''NamesAccepted'' = Some c
           \<and> Status c = ''True'')
      \<and> (\<exists>c. getCustomResourceDefinitionCondition (crd_Conditions crd) ''Established'' = Some c
           \<and> Status c = ''True'')
      \<and> (getCustomResourceDefinitionCondition (crd_Conditions crd) ''Terminating'' = None
         \<or> (\<exists>c. getCustomResourceDefinitionCondition (crd_Conditions crd) ''Terminating'' = Some c
              \<and> Status c = ''False'')))
   \<and> (distinct (map Type (crd_Conditions crd)) \<longrightarrow>
       (CheckCustomResourceDefinition printable crd = None \<longleftrightarrow>
          (\<exists>c\<in>set (crd_Conditions crd). Type c = ''NamesAccepted'' \<and> Status c = ''True'')
          \<and> (\<exists>c\<in>set (crd_Conditions crd). Type c = ''Established'' \<and> Status c = ''True'')
          \<and> (\<forall>c\<in>set (crd_Conditions crd). Type c = ''Terminating'' \<longrightarrow> Status c = ''False'')))
   \<and> CheckCustomResourceDefinition printable crd =
       (case getCustomResourceDefinitionCondition (crd_Conditions crd) ''NamesAccepted'' of
          None \<Rightarrow> Some (msg_condition_missing ''NamesAccepted'')
        | Some na \<Rightarrow>
            if Status na \<noteq> ''True'' then
              Some (msg_invalid_status ''NamesAccepted'' (Status na) ''True'' (Reason na) (Message na))
            else
              (case getCustomResourceDefinitionCondition (crd_Conditions crd) ''Established'' of
                 None \<Rightarrow> Some (msg_condition_missing ''Established'')
               | Some es \<Rightarrow>
                   if Status es \<noteq> ''True'' then
                     Some (msg_invalid_status ''Established'' (Status es) ''True'' (Reason es) (Message es))
                   else
                     (case getCustomResourceDefinitionCondition (crd_Conditions crd) ''Terminating'' of
                        None \<Rightarrow> None
                      | Some tm \<Rightarrow>
                          if Status tm \<noteq> ''False'' then
                            Some (msg_invalid_status ''Terminating'' (Status tm) ''False'' (Reason tm) (Message tm))
                          else None)))"
proof -
  let ?get = "getCustomResourceDefinitionCondition (crd_Conditions crd)"
  let ?check = "CheckCustomResourceDefinition printable crd"
  have lookup: "?check = None \<longleftrightarrow>
      (\<exists>c. ?get ''NamesAccepted'' = Some c \<and> Status c = ''True'')
      \<and> (\<exists>c. ?get ''Established'' = Some c \<and> Status c = ''True'')
      \<and> (?get ''Terminating'' = None \<or> (\<exists>c. ?get ''Terminating'' = Some c \<and> Status c = ''False''))"
    by (simp add: CheckCustomResourceDefinition_unfold split: option.splits)
  have sets: "?check = None \<longleftrightarrow>
          (\<exists>c\<in>set (crd_Conditions crd). Type c = ''NamesAccepted'' \<and> Status c = ''True'')
          \<and> (\<exists>c\<in>set (crd_Conditions crd). Type c = ''Established'' \<and> Status c = ''True'')
          \<and> (\<forall>c\<in>set (crd_Conditions crd). Type c = ''Terminating'' \<longrightarrow> Status c = ''False'')"
    if d: "distinct (map Type (crd_Conditions crd))"
  proof -
    have eq: "\<And>t c. ?get t = Some c \<longleftrightarrow> c \<in> set (crd_Conditions crd) \<and> Type c = t"
      using d by (rule get_crd_distinct)
    have "?get ''Terminating'' = None \<or> (\<exists>c. ?get ''Terminating'' = Some c \<and> Status c = ''False'')
       \<longleftrightarrow> (\<forall>c\<in>set (crd_Conditions crd). Type c = ''Terminating'' \<longrightarrow> Status c = ''False'')"
    proof (cases "?get ''Terminating''")
      case None
      then show ?thesis by (auto simp: get_crd_None)
    next
      case (Some tm)
      have mem: "tm \<in> set (crd_Conditions crd)" "Type tm = ''Terminating''"
        using eq [of "''Terminating''" tm] Some by simp_all
      have uniq: "c = tm" if "c \<in> set (crd_Conditions crd)" "Type c = ''Terminating''" for c
        using eq [of "''Terminating''" c] Some that by simp
      show ?thesis
      proof
        assume "?get ''Terminating'' = None \<or> (\<exists>c. ?get ''Terminating'' = Some c \<and> Status c = ''False'')"
        then have "Status tm = ''False''" unfolding Some by simp
        then show "\<forall>c\<in>set (crd_Conditions crd). Type c = ''Terminating'' \<longrightarrow> Status c = ''False''"
          using uniq by blast
      next
        assume "\<forall>c\<in>set (crd_Conditions crd). Type c = ''Terminating'' \<longrightarrow> Status c = ''False''"
        then have "Status tm = ''False''" using mem by blast
        then show "?get ''Terminating'' = None \<or> (\<exists>c. ?get ''Terminating'' = Some c \<and> Status c = ''False'')"
          unfolding Some by simp
      qed
    qed
    then show ?thesis unfolding lookup using eq by blast
  qed
  show ?thesis
    using lookup sets CheckCustomResourceDefinition_unfold [of printable crd] by blast
qed

text \<open>
  A healthy definition, and Scenario D of the specification: Established is True and
  NamesAccepted is missing.
\<close>

theorem CheckCustomResourceDefinition_verdict_witness:
  "distinct (map Type
      [\<lparr>Type = ''NamesAccepted'', Status = ''True'', Reason = ''NoConflicts'', Message = ''ok''\<rparr>,
       \<lparr>Type = ''Established'', Status = ''True'', Reason = ''InitialNamesAccepted'', Message = ''ok''\<rparr>,
       \<lparr>Type = ''Terminating'', Status = ''False'', Reason = ''NotTerminating'', Message = ''no''\<rparr>])
   \<and> CheckCustomResourceDefinition example_printable \<lparr>crd_Conditions =
      [\<lparr>Type = ''NamesAccepted'', Status = ''True'', Reason = ''NoConflicts'', Message = ''ok''\<rparr>,
       \<lparr>Type = ''Established'', Status = ''True'', Reason = ''InitialNamesAccepted'', Message = ''ok''\<rparr>,
       \<lparr>Type = ''Terminating'', Status = ''False'', Reason = ''NotTerminating'', Message = ''no''\<rparr>]\<rparr>
       = None
   \<and> CheckCustomResourceDefinition example_printable \<lparr>crd_Conditions =
      [\<lparr>Type = ''Established'', Status = ''True'', Reason = ''InitialNamesAccepted'', Message = ''ok''\<rparr>]\<rparr>
       = Some (''condition '' @ dq @ ''NamesAccepted'' @ dq @ '' is missing'')"
  using CheckCustomResourceDefinition_verdict [of example_printable "\<lparr>crd_Conditions =
      [\<lparr>Type = ''NamesAccepted'', Status = ''True'', Reason = ''NoConflicts'', Message = ''ok''\<rparr>,
       \<lparr>Type = ''Established'', Status = ''True'', Reason = ''InitialNamesAccepted'', Message = ''ok''\<rparr>,
       \<lparr>Type = ''Terminating'', Status = ''False'', Reason = ''NotTerminating'', Message = ''no''\<rparr>]\<rparr>"]
    CheckCustomResourceDefinition_verdict [of example_printable "\<lparr>crd_Conditions =
      [\<lparr>Type = ''Established'', Status = ''True'', Reason = ''InitialNamesAccepted'', Message = ''ok''\<rparr>]\<rparr>"]
  by (simp add: msg_condition_missing_def)

text \<open>
  Claim C9. CheckPod returns \<^verbatim>\<open>nil\<close> exactly for the phases Running and Succeeded; for every
  other phase the error is the format "pod is in invalid phase %q (expected one of %q)" filled
  with the phase and with the list of the two healthy phases, which \<^verbatim>\<open>%q\<close> writes as
  ["Running" "Succeeded"]. The phase is written by \<^verbatim>\<open>%q\<close> as \<open>fmt_q\<close> defines it, with Go's
  escapes; a phase in plain text, such as Pending, Unknown or Failed, stands unchanged between
  double quotes.
\<close>

theorem CheckPod_verdict:
  "(CheckPod printable pod = None \<longleftrightarrow> Phase pod = ''Running'' \<or> Phase pod = ''Succeeded'')
   \<and> CheckPod printable pod =
       (if Phase pod = ''Running'' \<or> Phase pod = ''Succeeded'' then None
        else Some (msg_invalid_phase (fmt_q printable (Phase pod))))
   \<and> (plain_ascii (Phase pod) \<longrightarrow> fmt_q printable (Phase pod) = dq @ Phase pod @ dq)"
  by (simp add: CheckPod_def healthyPodPhases_def PodRunning_def PodSucceeded_def
      fmt_q_list_def fmt_q_plain fmt_q_plain_ascii msg_invalid_phase_def Let_def)

text \<open>
  Scenario E of the specification (a Pending pod), the phases Unknown and Failed, and phases
  that \<^verbatim>\<open>%q\<close> escapes: the byte 0xFF, which is no UTF-8, is written as backslash, x, ff; the
  no-break space U+00A0 (bytes C2 A0) as backslash, u, 00a0; the line separator U+2028 (bytes
  E2 80 A8) as backslash, u, 2028; the printable U+65E5 (bytes E6 97 A5) is copied. Running
  and Succeeded are healthy.
\<close>

theorem CheckPod_verdict_witness:
  "plain_ascii ''Pending''
   \<and> CheckPod example_printable \<lparr>Phase = ''Pending''\<rparr> =
       Some (''pod is in invalid phase '' @ dq @ ''Pending'' @ dq @ '' (expected one of [''
             @ dq @ ''Running'' @ dq @ '' '' @ dq @ ''Succeeded'' @ dq @ ''])'')
   \<and> CheckPod example_printable \<lparr>Phase = ''Unknown''\<rparr> =
       Some (msg_invalid_phase (dq @ ''Unknown'' @ dq))
   \<and> CheckPod example_printable \<lparr>Phase = ''Failed''\<rparr> =
       Some (msg_invalid_phase (dq @ ''Failed'' @ dq))
   \<and> CheckPod example_printable \<lparr>Phase = [CHR 0xFF]\<rparr> =
       Some (msg_invalid_phase (dq @ [CHR 0x5C] @ ''xff'' @ dq))
   \<and> CheckPod example_printable \<lparr>Phase = [CHR 0xC2, CHR 0xA0]\<rparr> =
       Some (msg_invalid_phase (dq @ [CHR 0x5C] @ ''u00a0'' @ dq))
   \<and> CheckPod example_printable \<lparr>Phase = [CHR 0xE2, CHR 0x80, CHR 0xA8]\<rparr> =
       Some (msg_invalid_phase (dq @ [CHR 0x5C] @ ''u2028'' @ dq))
   \<and> CheckPod example_printable \<lparr>Phase = [CHR 0xE6, CHR 0x97, CHR 0xA5]\<rparr> =
       Some (msg_invalid_phase (dq @ [CHR 0xE6, CHR 0x97, CHR 0xA5] @ dq))
   \<and> CheckPod example_printable \<lparr>Phase = ''Running''\<rparr> = None
   \<and> CheckPod example_printable \<lparr>Phase = ''Succeeded''\<rparr> = None"
  using CheckPod_verdict [of example_printable "\<lparr>Phase = ''Pending''\<rparr>"]
    CheckPod_verdict [of example_printable "\<lparr>Phase = ''Unknown''\<rparr>"]
    CheckPod_verdict [of example_printable "\<lparr>Phase = ''Failed''\<rparr>"]
    CheckPod_verdict [of example_printable "\<lparr>Phase = [CHR 0xFF]\<rparr>"]
    CheckPod_verdict [of example_printable "\<lparr>Phase = [CHR 0xC2, CHR 0xA0]\<rparr>"]
    CheckPod_verdict [of example_printable "\<lparr>Phase = [CHR 0xE2, CHR 0x80, CHR 0xA8]\<rparr>"]
    CheckPod_verdict [of example_printable "\<lparr>Phase = [CHR 0xE6, CHR 0x97, CHR 0xA5]\<rparr>"]
    CheckPod_verdict [of example_printable "\<lparr>Phase = ''Running''\<rparr>"]
    CheckPod_verdict [of example_printable "\<lparr>Phase = ''Succeeded''\<rparr>"]
  by (simp add: quote_defs dq_def example_printable_def plain_ascii_def msg_invalid_phase_def)

text \<open>
  Claim C10. Both lookups return the first condition of the requested type in list order:
  they are \<open>find\<close>, that is, the condition at the least index whose type matches.
  CheckJob is the check of the first Failed condition and of nothing else, and
  CheckCustomResourceDefinition is the cascade over the first NamesAccepted, the first
  Established and the first Terminating condition: verdict and error text are read from these
  earliest entries. Hence a condition whose type already occurs earlier in the list changes
  neither result.
\<close>

theorem first_match_decides:
  "getCustomResourceDefinitionCondition cs t = find (\<lambda>c. Type c = t) cs
   \<and> getJobCondition cs t = find (\<lambda>c. Type c = t) cs
   \<and> (getJobCondition cs t = Some c \<longleftrightarrow>
        (\<exists>i<length cs. Type (cs ! i) = t \<and> c = cs ! i \<and> (\<forall>j<i. Type (cs ! j) \<noteq> t)))
   \<and> (getCustomResourceDefinitionCondition cs t = Some c \<longleftrightarrow>
        (\<exists>i<length cs. Type (cs ! i) = t \<and> c = cs ! i \<and> (\<forall>j<i. Type (cs ! j) \<noteq> t)))
   \<and> CheckJob printable job =
       (case find (\<lambda>c. Type c = ''Failed'') (job_Conditions job) of
          None \<Rightarrow> None
        | Some f \<Rightarrow>
            if Status f \<noteq> ''False'' then
              Some (msg_invalid_status ''Failed'' (Status f) ''False'' (Reason f) (Message f))
            else None)
   \<and> CheckCustomResourceDefinition printable crd =
       (case find (\<lambda>c. Type c = ''NamesAccepted'') (crd_Conditions crd) of
          None \<Rightarrow> Some (msg_condition_missing ''NamesAccepted'')
        | Some na \<Rightarrow>
            if Status na \<noteq> ''True'' then
              Some (msg_invalid_status ''NamesAccepted'' (Status na) ''True'' (Reason na) (Message na))
            else
              (case find (\<lambda>c. Type c = ''Established'') (crd_Conditions crd) of
                 None \<Rightarrow> Some (msg_condition_missing ''Established'')
               | Some es \<Rightarrow>
                   if Status es \<noteq> ''True'' then
                     Some (msg_invalid_status ''Established'' (Status es) ''True'' (Reason es) (Message es))
                   else
                     (case find (\<lambda>c. Type c = ''Terminating'') (crd_Conditions crd) of
                        None \<Rightarrow> None
                      | Some tm \<Rightarrow>
                          if Status tm \<noteq> ''False'' then
                            Some (msg_invalid_status ''Terminating'' (Status tm) ''False'' (Reason tm) (Message tm))
                          else None)))
   \<and> (Type d \<in> Type ` set xs \<longrightarrow>
        CheckCustomResourceDefinition printable (crd\<lparr>crd_Conditions := xs @ d # ys\<rparr>) =
        CheckCustomResourceDefinition printable (crd\<lparr>crd_Conditions := xs @ ys\<rparr>)
        \<and> CheckJob printable (job\<lparr>job_Conditions := xs @ d # ys\<rparr>) =
          CheckJob printable (job\<lparr>job_Conditions := xs @ ys\<rparr>))"
proof -
  have crd_find: "getCustomResourceDefinitionCondition cs t = find (\<lambda>c. Type c = t) cs"
    by (rule get_crd_find)
  have job_find: "getJobCondition cs t = find (\<lambda>c. Type c = t) cs"
    by (rule get_job_find)
  have job_first: "getJobCondition cs t = Some c \<longleftrightarrow>
      (\<exists>i<length cs. Type (cs ! i) = t \<and> c = cs ! i \<and> (\<forall>j<i. Type (cs ! j) \<noteq> t))"
    unfolding job_find by (rule find_Some_iff)
  have crd_first: "getCustomResourceDefinitionCondition cs t = Some c \<longleftrightarrow>
      (\<exists>i<length cs. Type (cs ! i) = t \<and> c = cs ! i \<and> (\<forall>j<i. Type (cs ! j) \<noteq> t))"
    unfolding crd_find by (rule find_Some_iff)
  have job: "CheckJob printable job =
       (case find (\<lambda>c. Type c = ''Failed'') (job_Conditions job) of
          None \<Rightarrow> None
        | Some f \<Rightarrow>
            if Status f \<noteq> ''False'' then
              Some (msg_invalid_status ''Failed'' (Status f) ''False'' (Reason f) (Message f))
            else None)"
    unfolding CheckJob_unfold get_job_find ..
  have crd: "CheckCustomResourceDefinition printable crd =
       (case find (\<lambda>c. Type c = ''NamesAccepted'') (crd_Conditions crd) of
          None \<Rightarrow> Some (msg_condition_missing ''NamesAccepted'')
        | Some na \<Rightarrow>
            if Status na \<noteq> ''True'' then
              Some (msg_invalid_status ''NamesAccepted'' (Status na) ''True'' (Reason na) (Message na))
            else
              (case find (\<lambda>c. Type c = ''Established'') (crd_Conditions crd) of
                 None \<Rightarrow> Some (msg_condition_missing ''Established'')
               | Some es \<Rightarrow>
                   if Status es \<noteq> ''True'' then
                     Some (msg_invalid_status ''Established'' (Status es) ''True'' (Reason es) (Message es))
                   else
                     (case find (\<lambda>c. Type c = ''Terminating'') (crd_Conditions crd) of
                        None \<Rightarrow> None
                      | Some tm \<Rightarrow>
                          if Status tm \<noteq> ''False'' then
                            Some (msg_invalid_status ''Terminating'' (Status tm) ''False'' (Reason tm) (Message tm))
                          else None)))"
    unfolding CheckCustomResourceDefinition_unfold get_crd_find ..
  have dup: "CheckCustomResourceDefinition printable (crd\<lparr>crd_Conditions := xs @ d # ys\<rparr>) =
        CheckCustomResourceDefinition printable (crd\<lparr>crd_Conditions := xs @ ys\<rparr>)
        \<and> CheckJob printable (job\<lparr>job_Conditions := xs @ d # ys\<rparr>) =
          CheckJob printable (job\<lparr>job_Conditions := xs @ ys\<rparr>)"
    if mem: "Type d \<in> Type ` set xs"
  proof -
    have eq: "\<And>t. getCustomResourceDefinitionCondition (xs @ d # ys) t =
        getCustomResourceDefinitionCondition (xs @ ys) t"
      using mem by (rule get_crd_dup)
    have "checkTrueConditions printable (xs @ d # ys) trueCrdConditionTypes =
          checkTrueConditions printable (xs @ ys) trueCrdConditionTypes"
      by (rule checkTrue_cong) (rule eq)
    moreover have "checkFalseOptionalConditions printable (xs @ d # ys) falseOptionalCrdConditionTypes =
          checkFalseOptionalConditions printable (xs @ ys) falseOptionalCrdConditionTypes"
      by (rule checkFalse_cong) (rule eq)
    moreover have "getJobCondition (xs @ d # ys) JobFailed = getJobCondition (xs @ ys) JobFailed"
      using mem by (rule get_job_dup)
    ultimately show ?thesis
      by (simp add: CheckCustomResourceDefinition_def CheckJob_def split: option.splits)
  qed
  from crd_find job_find job_first crd_first job crd dup show ?thesis by blast
qed

text \<open>
  A Job whose first Failed condition is True and whose second is False: the check fails with
  the reason and the message of the first. A definition whose first NamesAccepted condition
  is False and whose second is True: the check fails on the first. With the order of the two
  turned round both checks pass. In each case the result is the same without the second
  condition.
\<close>

theorem first_match_decides_witness:
  "getJobCondition
       [\<lparr>Type = ''Complete'', Status = ''False'', Reason = ''r0'', Message = ''m0''\<rparr>,
        \<lparr>Type = ''Failed'', Status = ''True'', Reason = ''BackoffLimitExceeded'', Message = ''too many retries''\<rparr>,
        \<lparr>Type = ''Failed'', Status = ''False'', Reason = ''r2'', Message = ''m2''\<rparr>] ''Failed''
     = Some \<lparr>Type = ''Failed'', Status = ''True'', Reason = ''BackoffLimitExceeded'', Message = ''too many retries''\<rparr>
   \<and> CheckJob example_printable \<lparr>job_Conditions =
       [\<lparr>Type = ''Failed'', Status = ''True'', Reason = ''BackoffLimitExceeded'', Message = ''too many retries''\<rparr>,
        \<lparr>Type = ''Failed'', Status = ''False'', Reason = ''r2'', Message = ''m2''\<rparr>]\<rparr>
     = Some (''condition '' @ dq @ ''Failed'' @ dq
             @ '' has invalid status True (expected False) due to BackoffLimitExceeded: too many retries'')
   \<and> CheckJob example_printable \<lparr>job_Conditions =
       [\<lparr>Type = ''Failed'', Status = ''True'', Reason = ''BackoffLimitExceeded'', Message = ''too many retries''\<rparr>]\<rparr>
     = Some (''condition '' @ dq @ ''Failed'' @ dq
             @ '' has invalid status True (expected False) due to BackoffLimitExceeded: too many retries'')
   \<and> CheckJob example_printable \<lparr>job_Conditions =
       [\<lparr>Type = ''Failed'', Status = ''False'', Reason = ''r2'', Message = ''m2''\<rparr>,
        \<lparr>Type = ''Failed'', Status = ''True'', Reason = ''BackoffLimitExceeded'', Message = ''too many retries''\<rparr>]\<rparr>
     = None
   \<and> Type \<lparr>Type = ''NamesAccepted'', Status = ''True'', Reason = ''NoConflicts'', Message = ''ok''\<rparr>
       \<in> Type ` set [\<lparr>Type = ''NamesAccepted'', Status = ''False'', Reason = ''Conflict'', Message = ''name taken''\<rparr>]
   \<and> CheckCustomResourceDefinition example_printable \<lparr>crd_Conditions =
       [\<lparr>Type = ''NamesAccepted'', Status = ''False'', Reason = ''Conflict'', Message = ''name taken''\<rparr>,
        \<lparr>Type = ''NamesAccepted'', Status = ''True'', Reason = ''NoConflicts'', Message = ''ok''\<rparr>,
        \<lparr>Type = ''Established'', Status = ''True'', Reason = ''r'', Message = ''m''\<rparr>]\<rparr>
     = Some (''condition '' @ dq @ ''NamesAccepted'' @ dq
             @ '' has invalid status False (expected True) due to Conflict: name taken'')
   \<and> CheckCustomResourceDefinition example_printable \<lparr>crd_Conditions =
       [\<lparr>Type = ''NamesAccepted'', Status = ''False'', Reason = ''Conflict'', Message = ''name taken''\<rparr>,
        \<lparr>Type = ''Established'', Status = ''True'', Reason = ''r'', Message = ''m''\<rparr>]\<rparr>
     = Some (''condition '' @ dq @ ''NamesAccepted'' @ dq
             @ '' has invalid status False (expected True) due to Conflict: name taken'')
   \<and> CheckCustomResourceDefinition example_printable \<lparr>crd_Conditions =
       [\<lparr>Type = ''NamesAccepted'', Status = ''True'', Reason = ''NoConflicts'', Message = ''ok''\<rparr>,
        \<lparr>Type = ''NamesAccepted'', Status = ''False'', Reason = ''Conflict'', Message = ''name taken''\<rparr>,
        \<lparr>Type = ''Established'', Status = ''True'', Reason = ''r'', Message = ''m''\<rparr>]\<rparr>
     = None"
  using first_match_decides [where printable = example_printable
      and cs = "[\<lparr>Type = ''Complete'', Status = ''False'', Reason = ''r0'', Message = ''m0''\<rparr>,
        \<lparr>Type = ''Failed'', Status = ''True'', Reason = ''BackoffLimitExceeded'', Message = ''too many retries''\<rparr>,
        \<lparr>Type = ''Failed'', Status = ''False'', Reason = ''r2'', Message = ''m2''\<rparr>]"
      and t = "''Failed''"
      and c = "\<lparr>Type = ''Failed'', Status = ''True'', Reason = ''BackoffLimitExceeded'', Message = ''too many retries''\<rparr>"
      and job = "\<lparr>job_Conditions =
       [\<lparr>Type = ''Failed'', Status = ''True'', Reason = ''BackoffLimitExceeded'', Message = ''too many retries''\<rparr>,
        \<lparr>Type = ''Failed'', Status = ''False'', Reason = ''r2'', Message = ''m2''\<rparr>]\<rparr>"
      and crd = "\<lparr>crd_Conditions =
       [\<lparr>Type = ''NamesAccepted'', Status = ''False'', Reason = ''Conflict'', Message = ''name taken''\<rparr>,
        \<lparr>Type = ''NamesAccepted'', Status = ''True'', Reason = ''NoConflicts'', Message = ''ok''\<rparr>,
        \<lparr>Type = ''Established'', Status = ''True'', Reason = ''r'', Message = ''m''\<rparr>]\<rparr>"
      and d = "\<lparr>Type = ''NamesAccepted'', Status = ''True'', Reason = ''NoConflicts'', Message = ''ok''\<rparr>"
      and xs = "[\<lparr>Type = ''NamesAccepted'', Status = ''False'', Reason = ''Conflict'', Message = ''name taken''\<rparr>]"
      and ys = "[\<lparr>Type = ''Established'', Status = ''True'', Reason = ''r'', Message = ''m''\<rparr>]"]
    first_match_decides [where printable = example_printable
      and cs = "[]" and t = "''Failed''"
      and c = "\<lparr>Type = ''Failed'', Status = ''True'', Reason = ''BackoffLimitExceeded'', Message = ''too many retries''\<rparr>"
      and job = "\<lparr>job_Conditions =
       [\<lparr>Type = ''Failed'', Status = ''False'', Reason = ''r2'', Message = ''m2''\<rparr>,
        \<lparr>Type = ''Failed'', Status = ''True'', Reason = ''BackoffLimitExceeded'', Message = ''too many retries''\<rparr>]\<rparr>"
      and crd = "\<lparr>crd_Conditions =
       [\<lparr>Type = ''NamesAccepted'', Status = ''True'', Reason = ''NoConflicts'', Message = ''ok''\<rparr>,
        \<lparr>Type = ''NamesAccepted'', Status = ''False'', Reason = ''Conflict'', Message = ''name taken''\<rparr>,
        \<lparr>Type = ''Established'', Status = ''True'', Reason = ''r'', Message = ''m''\<rparr>]\<rparr>"
      and d = "\<lparr>Type = ''Failed'', Status = ''False'', Reason = ''r2'', Message = ''m2''\<rparr>"
      and xs = "[\<lparr>Type = ''Failed'', Status = ''True'', Reason = ''BackoffLimitExceeded'', Message = ''too many retries''\<rparr>]"
      and ys = "[]"]
  by (simp add: CheckJob_unfold CheckCustomResourceDefinition_unfold msg_invalid_status_def
      msg_condition_missing_def)

section \<open>Properties of the Secret reconciler\<close>

subsection \<open>The client calls\<close>

lemma apply_event_calls [simp]: "calls (apply_event e w) = calls w"
  by (cases e) simp_all

lemma apply_event_log [simp]: "log (apply_event e w) = log w"
  by (cases e) simp_all

lemma apply_event_schedule [simp]: "schedule (apply_event e w) = schedule w"
  by (cases e) simp_all

lemma begin_call_calls [simp]: "calls (snd (begin_call w)) = calls w"
  by (simp add: begin_call_def split: list.splits)

lemma begin_call_log [simp]: "log (snd (begin_call w)) = log w"
  by (simp add: begin_call_def split: list.splits)

lemma begin_call_schedule [simp]: "schedule (snd (begin_call w)) = tl (schedule w)"
  by (simp add: begin_call_def split: list.splits)

lemma begin_call_fault:
  "begin_call w = (Some err, w1) \<Longrightarrow> \<exists>m. err = ServerError m"
  by (auto simp: begin_call_def split: list.splits elim: fault_of.elims)

lemma client_Get_calls:
  "client_Get key w = (res, w') \<Longrightarrow> calls w' = calls w @ [Get key res]"
  by (auto simp: client_Get_def record_call_def Let_def split: prod.splits)
    (metis begin_call_calls snd_conv)

lemma client_Get_log: "client_Get key w = (res, w') \<Longrightarrow> log w' = log w"
  by (auto simp: client_Get_def record_call_def Let_def split: prod.splits)
    (metis begin_call_log snd_conv)

lemma client_Get_key:
  "client_Get key w = (Inr secret, w') \<Longrightarrow> Namespace secret = fst key \<and> Name secret = snd key"
  by (auto simp: client_Get_def Let_def secret_of_def split: prod.splits option.splits)

lemma client_Get_Inr:
  "client_Get key w = (Inr s, w1) \<Longrightarrow> \<exists>b. secrets w1 key = Some b \<and> s = secret_of key b"
  by (auto simp: client_Get_def Let_def record_call_def split: prod.splits option.splits)

lemma client_List_calls:
  "client_List ns w = (res, w') \<Longrightarrow> calls w' = calls w @ [List ns res]"
  by (auto simp: client_List_def record_call_def Let_def split: prod.splits)
    (metis begin_call_calls snd_conv)

lemma client_List_log: "client_List ns w = (res, w') \<Longrightarrow> log w' = log w"
  by (auto simp: client_List_def record_call_def Let_def split: prod.splits)
    (metis begin_call_log snd_conv)

lemma client_List_error:
  "client_List ns w = (Inl err, w') \<Longrightarrow> \<exists>m. err = ServerError m"
  by (auto simp: client_List_def Let_def split: prod.splits option.splits dest: begin_call_fault)

lemma client_Update_calls:
  "client_Update obj w = (res, w') \<Longrightarrow> \<exists>held. calls w' = calls w @ [Update obj held res]"
  by (auto simp: client_Update_def record_call_def Let_def split: prod.splits option.splits if_splits)
    (metis begin_call_calls snd_conv)+

lemma client_Update_log: "client_Update obj w = (res, w') \<Longrightarrow> log w' = log w"
  by (auto simp: client_Update_def record_call_def Let_def split: prod.splits option.splits if_splits)
    (metis begin_call_log snd_conv)+

lemma sleep_calls [simp]: "calls (sleep d w) = calls w @ [Sleep d]"
  by (simp add: sleep_def record_call_def)

lemma logInfo_calls [simp]: "calls (logInfo msg kvs w) = calls w"
  by (simp add: logInfo_def)

lemma logError_calls [simp]: "calls (logError err msg w) = calls w"
  by (simp add: logError_def)

lemma logInfo_store [simp]:
  "secrets (logInfo msg kvs w) = secrets w"
  "resources (logInfo msg kvs w) = resources w"
  "revision (logInfo msg kvs w) = revision w"
  "schedule (logInfo msg kvs w) = schedule w"
  by (simp_all add: logInfo_def)

lemma logError_store [simp]:
  "secrets (logError err msg w) = secrets w"
  "resources (logError err msg w) = resources w"
  "revision (logError err msg w) = revision w"
  "schedule (logError err msg w) = schedule w"
  by (simp_all add: logError_def)

lemma key_of_secret_of [simp]: "key_of (secret_of key b) = key"
  by (simp add: key_of_def secret_of_def)

lemma secret_of_fields [simp]:
  "ResourceVersion (secret_of key b) = ResourceVersion b"
  "Finalizers (secret_of key b) = Finalizers b"
  "Data (secret_of key b) = Data b"
  "Namespace (secret_of key b) = fst key"
  "Name (secret_of key b) = snd key"
  by (simp_all add: secret_of_def)

lemma body_of_fields [simp]:
  "ResourceVersion (body_of s) = ResourceVersion s"
  "Finalizers (body_of s) = Finalizers s"
  "Data (body_of s) = Data s"
  by (simp_all add: body_of_def)

subsection \<open>The reference loops and the finalizer update\<close>

lemma refsLoop_eq:
  "refsLoop cls secret resource refs acc =
     (acc \<or> (Responsible cls resource \<and> Name secret \<in> set refs))"
  by (induction refs) auto

lemma resourcesLoop_eq:
  "resourcesLoop cls secret items acc =
     (acc \<or> (\<exists>m\<in>set items. Responsible cls m \<and> Name secret \<in> set (mr_SecretRefs m)))"
  by (induction items arbitrary: acc) (auto simp: refsLoop_eq)

lemma Has_NewString [simp]: "Has (NewString xs) x = (x \<in> set xs)"
  by (simp add: Has_def NewString_def)

lemma updateFinalizers_key [simp]: "key_of (updateFinalizers a b x s) = key_of s"
  by (simp add: updateFinalizers_def key_of_def Let_def)

lemma updateFinalizers_version [simp]:
  "ResourceVersion (updateFinalizers a b x s) = ResourceVersion s"
  by (simp add: updateFinalizers_def Let_def)

lemma updateFinalizers_data [simp]: "Data (updateFinalizers a b x s) = Data s"
  by (simp add: updateFinalizers_def Let_def)

lemma updateFinalizers_set:
  "set (Finalizers (updateFinalizers a b x s)) =
     (if a then insert x (set (Finalizers s))
      else if b then set (Finalizers s) - {x}
      else set (Finalizers s))"
  by (auto simp: updateFinalizers_def Let_def NewString_def Insert_def Delete_def UnsortedList_def)

subsection \<open>The two paths of Reconcile after its reads\<close>

lemma Reconcile_converged:
  assumes "client_Get req w = (Inr secret, w1)"
    and "client_List (Namespace secret) w1 = (Inr resourceList, w2)"
    and "resourcesLoop (classFilter r) secret resourceList False
         = (FinalizerName (classFilter r) \<in> set (Finalizers secret))"
  shows "Reconcile r req w = ((\<lparr>Requeue = False, RequeueAfter = 0\<rparr>, None), w2)"
proof (cases "resourcesLoop (classFilter r) secret resourceList False")
  case True
  then show ?thesis using assms by (simp add: Reconcile_def Let_def)
next
  case False
  then show ?thesis using assms by (simp add: Reconcile_def Let_def)
qed

lemma Reconcile_update:
  assumes "client_Get req w = (Inr secret, w1)"
    and "client_List (Namespace secret) w1 = (Inr resourceList, w2)"
    and "referenced = resourcesLoop (classFilter r) secret resourceList False"
    and "referenced \<noteq> (FinalizerName (classFilter r) \<in> set (Finalizers secret))"
    and "TryUpdate DefaultBackoff secret
           (updateFinalizers referenced (\<not> referenced) (FinalizerName (classFilter r)))
           (logInfo (decisionLog referenced) [(''finalizer'', FinalizerName (classFilter r))] w2)
         = (err, w4)"
  shows "Reconcile r req w =
           (if err = None \<or> err = Some NotFound then
              ((\<lparr>Requeue = False, RequeueAfter = 0\<rparr>, None), w4)
            else ((\<lparr>Requeue = False, RequeueAfter = 5 * Second\<rparr>, None),
                  logError err ''failed to update finalizers of Secret'' w4))"
proof (cases referenced)
  case True
  then show ?thesis using assms
    by (auto simp: Reconcile_def Let_def decisionLog_def IgnoreNotFound_def)
next
  case False
  then show ?thesis using assms
    by (auto simp: Reconcile_def Let_def decisionLog_def IgnoreNotFound_def)
qed

lemma Reconcile_cases [case_names get_failed list_failed converged update]:
  obtains
    (get_failed) err w1 where "client_Get req w = (Inl err, w1)"
      "snd (Reconcile r req w) = w1 \<or> snd (Reconcile r req w) =
         logInfo ''Stopping reconciliation of Secret, as it has been deleted'' [] w1"
  | (list_failed) secret w1 err w2 where "client_Get req w = (Inr secret, w1)"
      "client_List (Namespace secret) w1 = (Inl err, w2)" "snd (Reconcile r req w) = w2"
  | (converged) secret w1 resourceList w2 where "client_Get req w = (Inr secret, w1)"
      "client_List (Namespace secret) w1 = (Inr resourceList, w2)"
      "snd (Reconcile r req w) = w2"
  | (update) secret w1 resourceList w2 referenced err w4 where
      "client_Get req w = (Inr secret, w1)"
      "client_List (Namespace secret) w1 = (Inr resourceList, w2)"
      "TryUpdate DefaultBackoff secret
         (updateFinalizers referenced (\<not> referenced) (FinalizerName (classFilter r)))
         (logInfo (decisionLog referenced) [(''finalizer'', FinalizerName (classFilter r))] w2)
       = (err, w4)"
      "snd (Reconcile r req w) = w4 \<or> snd (Reconcile r req w) =
         logError err ''failed to update finalizers of Secret'' w4"
proof -
  obtain res w1 where g: "client_Get req w = (res, w1)" by (cases "client_Get req w")
  show thesis
  proof (cases res)
    case (Inl err)
    then show thesis using g get_failed [of err w1] by (auto simp: Reconcile_def)
  next
    case (Inr secret)
    obtain lres w2 where l: "client_List (Namespace secret) w1 = (lres, w2)"
      by (cases "client_List (Namespace secret) w1")
    show thesis
    proof (cases lres)
      case (Inl err)
      then show thesis using g Inr l list_failed [of secret w1 err w2] by (simp add: Reconcile_def)
    next
      case items: (Inr resourceList)
      define referenced where "referenced = resourcesLoop (classFilter r) secret resourceList False"
      show thesis
      proof (cases "referenced = (FinalizerName (classFilter r) \<in> set (Finalizers secret))")
        case True
        then have "Reconcile r req w = ((\<lparr>Requeue = False, RequeueAfter = 0\<rparr>, None), w2)"
          unfolding referenced_def
          by (rule Reconcile_converged [OF g [unfolded Inr] l [unfolded items]])
        then show thesis using converged [OF g [unfolded Inr] l [unfolded items]] by simp
      next
        case False
        let ?w3 = "logInfo (decisionLog referenced)
                    [(''finalizer'', FinalizerName (classFilter r))] w2"
        let ?t = "updateFinalizers referenced (\<not> referenced) (FinalizerName (classFilter r))"
        obtain err w4 where tu: "TryUpdate DefaultBackoff secret ?t ?w3 = (err, w4)"
          by (cases "TryUpdate DefaultBackoff secret ?t ?w3")
        have "Reconcile r req w =
           (if err = None \<or> err = Some NotFound then
              ((\<lparr>Requeue = False, RequeueAfter = 0\<rparr>, None), w4)
            else ((\<lparr>Requeue = False, RequeueAfter = 5 * Second\<rparr>, None),
                  logError err ''failed to update finalizers of Secret'' w4))"
          by (rule Reconcile_update [OF g [unfolded Inr] l [unfolded items] referenced_def False tu])
        then have "snd (Reconcile r req w) = w4 \<or> snd (Reconcile r req w) =
         logError err ''failed to update finalizers of Secret'' w4" by simp
        then show thesis using update [OF g [unfolded Inr] l [unfolded items] tu] by simp
      qed
    qed
  qed
qed

subsection \<open>The trace of TryUpdate\<close>

lemma tryUpdateLoop_trace:
  "tryUpdateLoop n d f key t w = (e, w') \<Longrightarrow>
   \<exists>cs. calls w' = calls w @ cs \<and> retry_trace n d f key t cs e"
proof (induction n arbitrary: d w)
  case 0
  then show ?case by simp
next
  case (Suc n)
  obtain res w1 where g: "client_Get key w = (res, w1)" by (cases "client_Get key w")
  note c1 = client_Get_calls [OF g]
  show ?case
  proof (cases res)
    case (Inl err)
    then show ?thesis using Suc.prems g c1 by auto
  next
    case (Inr s)
    have ks: "key_of s = key"
      using client_Get_key [of key w s w1] g Inr by (simp add: key_of_def)
    obtain ures w2 where u: "client_Update (t s) w1 = (ures, w2)"
      by (cases "client_Update (t s) w1")
    from client_Update_calls [OF u] obtain held
      where c2: "calls w2 = calls w1 @ [Update (t s) held ures]" by blast
    show ?thesis
    proof (cases "ures = Some Conflict")
      case False
      then have "e = ures" "w' = w2"
        using Suc.prems g Inr u by (auto split: option.splits)
      then show ?thesis using c1 c2 Inr False ks by auto
    next
      case True
      then have "tryUpdateLoop n (d * f) f key t (sleep d w2) = (e, w')"
        using Suc.prems g Inr u by simp
      from Suc.IH [OF this] obtain rest
        where "calls w' = calls (sleep d w2) @ rest" "retry_trace n (d * f) f key t rest e"
        by blast
      then show ?thesis using c1 c2 Inr True ks by auto
    qed
  qed
qed

lemma retry_trace_last:
  "retry_trace n d f key t cs e \<Longrightarrow> cs \<noteq> [] \<Longrightarrow>
   returned (last cs) = Some NotFound \<Longrightarrow> e = Some NotFound"
proof (induction n arbitrary: d cs)
  case 0
  then show ?case by simp
next
  case (Suc n)
  from Suc.prems(1) consider
      (get) err where "cs = [Get key (Inl err)]" "e = Some err"
    | (finished) s held where "cs = [Get key (Inr s), Update (t s) held e]"
    | (again) s held rest where
        "cs = Get key (Inr s) # Update (t s) held (Some Conflict) # Sleep d # rest"
        "retry_trace n (d * f) f key t rest e"
    by auto
  then show ?case
  proof cases
    case get
    then show ?thesis using Suc.prems(3) by simp
  next
    case finished
    then show ?thesis using Suc.prems(3) by simp
  next
    case again
    show ?thesis
    proof (cases "rest = []")
      case True
      then show ?thesis using again Suc.prems(3) by simp
    next
      case False
      then have "returned (last rest) = Some NotFound"
        using again Suc.prems(3) by simp
      from Suc.IH [OF again(2) False this] show ?thesis .
    qed
  qed
qed

lemma retry_trace_nonempty: "retry_trace n d f key t cs e \<Longrightarrow> 0 < n \<Longrightarrow> cs \<noteq> []"
  by (cases n) auto

lemma TryUpdate_trace:
  assumes "TryUpdate DefaultBackoff obj t w = (e, w')"
  shows "\<exists>cs. calls w' = calls w @ cs \<and> retry_trace 4 (10 * Millisecond) 5 (key_of obj) t cs e"
proof -
  have "tryUpdateLoop 4 (10 * Millisecond) 5 (key_of obj) t w = (e, w')"
    using assms by (simp add: TryUpdate_def DefaultBackoff_def)
  then show ?thesis by (rule tryUpdateLoop_trace)
qed

lemma retry_trace_follow:
  "retry_trace n d f key t cs e \<Longrightarrow> writes_follow_reads key t cs"
  by (induction n arbitrary: d cs) auto

lemma retry_trace_count:
  "retry_trace n d f key t cs e \<Longrightarrow> length (filter is_Update cs) \<le> n"
  by (induction n arbitrary: d cs) auto

lemma retry_trace_pauses:
  "retry_trace n d f key t cs e \<Longrightarrow>
   pauses cs = take (length (pauses cs)) (backoff_pauses n d f)"
  by (induction n arbitrary: d cs) auto

lemma retry_trace_objects:
  "retry_trace n d f key t cs e \<Longrightarrow> Update obj held res \<in> set cs \<Longrightarrow>
   \<exists>s. obj = t s \<and> key_of s = key"
  by (induction n arbitrary: d cs) auto

lemma backoff_pauses_default:
  "backoff_pauses 4 (10 * Millisecond) 5 =
     [10 * Millisecond, 50 * Millisecond, 250 * Millisecond, 1250 * Millisecond]"
  by (simp add: numeral_eq_Suc)

subsection \<open>Runs without writes of other clients\<close>

lemma apply_event_quiet:
  "quiet e \<Longrightarrow> apply_event e w = w"
  by (cases e) simp_all

lemma begin_call_quiet:
  assumes "list_all quiet (schedule w)" and "begin_call w = (fault, w1)"
  shows "secrets w1 = secrets w" and "resources w1 = resources w" and "revision w1 = revision w"
    and "list_all quiet (schedule w1)"
  using assms by (auto simp: begin_call_def apply_event_quiet split: list.splits)

lemma client_Get_quiet:
  assumes "list_all quiet (schedule w)" and "client_Get key w = (res, w1)"
  shows "secrets w1 = secrets w" and "resources w1 = resources w" and "revision w1 = revision w"
    and "list_all quiet (schedule w1)"
    and "res = Inl NotFound \<Longrightarrow> secrets w key = None"
    and "res = Inr s \<Longrightarrow> \<exists>b. secrets w key = Some b \<and> s = secret_of key b"
proof -
  obtain fault w0 where b: "begin_call w = (fault, w0)" by (cases "begin_call w")
  note q = begin_call_quiet [OF assms(1) b]
  have w1: "w1 = record_call (Get key res) w0"
    using assms(2) b by (auto simp: client_Get_def Let_def)
  show "secrets w1 = secrets w" "resources w1 = resources w" "revision w1 = revision w"
    "list_all quiet (schedule w1)"
    using q by (simp_all add: w1 record_call_def)
  have res: "res = (case fault of Some err \<Rightarrow> Inl err
                    | None \<Rightarrow> (case secrets w key of None \<Rightarrow> Inl NotFound
                               | Some b \<Rightarrow> Inr (secret_of key b)))"
    using assms(2) b q(1) by (auto simp: client_Get_def Let_def split: option.splits)
  show "secrets w key = None" if "res = Inl NotFound"
    using that res begin_call_fault [of w _ w0] b by (auto split: option.splits)
  show "\<exists>b. secrets w key = Some b \<and> s = secret_of key b" if "res = Inr s"
    using that res by (auto split: option.splits)
qed

lemma client_List_quiet:
  assumes "list_all quiet (schedule w)" and "client_List ns w = (res, w1)"
  shows "secrets w1 = secrets w" and "resources w1 = resources w" and "revision w1 = revision w"
    and "list_all quiet (schedule w1)"
    and "res = Inr items \<Longrightarrow> items = filter (\<lambda>r. mr_Namespace r = ns) (resources w)"
proof -
  obtain fault w0 where b: "begin_call w = (fault, w0)" by (cases "begin_call w")
  note q = begin_call_quiet [OF assms(1) b]
  have w1: "w1 = record_call (List ns res) w0"
    using assms(2) b by (auto simp: client_List_def Let_def)
  show "secrets w1 = secrets w" "resources w1 = resources w" "revision w1 = revision w"
    "list_all quiet (schedule w1)"
    using q by (simp_all add: w1 record_call_def)
  show "items = filter (\<lambda>r. mr_Namespace r = ns) (resources w)" if "res = Inr items"
    using that assms(2) b q(2) by (auto simp: client_List_def Let_def split: option.splits)
qed

lemma client_Update_quiet:
  assumes "list_all quiet (schedule w)" and "client_Update obj w = (res, w1)"
    and "secrets w (key_of obj) = Some b" and "ResourceVersion b = ResourceVersion obj"
  shows "resources w1 = resources w"
    and "(res = None \<and> secrets w1 = (secrets w)(key_of obj \<mapsto>
            (body_of obj)\<lparr>ResourceVersion := Suc (revision w)\<rparr>))
         \<or> ((\<exists>m. res = Some (ServerError m)) \<and> secrets w1 = secrets w)"
proof -
  obtain fault w0 where b: "begin_call w = (fault, w0)" by (cases "begin_call w")
  note q = begin_call_quiet [OF assms(1) b]
  show "resources w1 = resources w"
    using assms(2,3,4) b q
    by (auto simp: client_Update_def Let_def record_call_def split: option.splits if_splits)
  show "(res = None \<and> secrets w1 = (secrets w)(key_of obj \<mapsto>
            (body_of obj)\<lparr>ResourceVersion := Suc (revision w)\<rparr>))
         \<or> ((\<exists>m. res = Some (ServerError m)) \<and> secrets w1 = secrets w)"
    using assms(2,3,4) b q begin_call_fault [of w _ w0]
    by (auto simp: client_Update_def Let_def record_call_def split: option.splits if_splits)
qed

lemma tryUpdateLoop_quiet:
  assumes q: "list_all quiet (schedule w)"
    and ex: "secrets w key = Some b"
    and run: "tryUpdateLoop (Suc n) d f key (updateFinalizers a c x) w = (e, w')"
  shows "resources w' = resources w"
    and "(e = None \<and> secrets w' = (secrets w)(key \<mapsto>
            (body_of (updateFinalizers a c x (secret_of key b)))\<lparr>ResourceVersion := Suc (revision w)\<rparr>))
         \<or> ((\<exists>m. e = Some (ServerError m)) \<and> secrets w' = secrets w)"
proof -
  obtain res w1 where g: "client_Get key w = (res, w1)" by (cases "client_Get key w")
  note gq = client_Get_quiet [OF q g]
  have both: "resources w' = resources w \<and>
        ((e = None \<and> secrets w' = (secrets w)(key \<mapsto>
            (body_of (updateFinalizers a c x (secret_of key b)))\<lparr>ResourceVersion := Suc (revision w)\<rparr>))
         \<or> ((\<exists>m. e = Some (ServerError m)) \<and> secrets w' = secrets w))"
  proof (cases res)
    case (Inl err)
    then have "e = Some err" "w' = w1" using run g by simp_all
    moreover have "err \<noteq> NotFound" using gq(5) Inl ex by auto
    moreover have "\<exists>m. err = ServerError m"
    proof -
      obtain fault w0 where bc: "begin_call w = (fault, w0)" by (cases "begin_call w")
      then show ?thesis
        using g Inl ex begin_call_quiet(1) [OF q bc] begin_call_fault [of w _ w0]
        by (auto simp: client_Get_def Let_def split: option.splits)
    qed
    ultimately show ?thesis using gq(1,2) by simp
  next
    case (Inr s)
    then have s: "s = secret_of key b" using gq(6) ex by auto
    let ?obj = "updateFinalizers a c x s"
    obtain ures w2 where u: "client_Update ?obj w1 = (ures, w2)"
      by (cases "client_Update ?obj w1")
    have held: "secrets w1 (key_of ?obj) = Some b" using gq(1) ex s by simp
    have ver: "ResourceVersion b = ResourceVersion ?obj" using s by simp
    note uq = client_Update_quiet [OF gq(4) u held ver]
    from uq(2) show ?thesis
    proof
      assume ok: "ures = None \<and> secrets w2 = (secrets w1)(key_of ?obj \<mapsto>
            (body_of ?obj)\<lparr>ResourceVersion := Suc (revision w1)\<rparr>)"
      then have "e = None" "w' = w2" using run g Inr u by simp_all
      then show ?thesis using ok uq(1) gq(1,2,3) s by simp
    next
      assume fl: "(\<exists>m. ures = Some (ServerError m)) \<and> secrets w2 = secrets w1"
      then obtain m where m: "ures = Some (ServerError m)" by blast
      then have "e = Some (ServerError m)" "w' = w2" using run g Inr u by simp_all
      then show ?thesis using uq(1) gq(1,2) fl by simp
    qed
  qed
  show "resources w' = resources w" using both by simp
  show "(e = None \<and> secrets w' = (secrets w)(key \<mapsto>
            (body_of (updateFinalizers a c x (secret_of key b)))\<lparr>ResourceVersion := Suc (revision w)\<rparr>))
         \<or> ((\<exists>m. e = Some (ServerError m)) \<and> secrets w' = secrets w)" using both by simp
qed

subsection \<open>Resource versions and successful writes\<close>

lemma apply_event_bounded:
  "versions_bounded w \<Longrightarrow> versions_bounded (apply_event e w)"
  by (cases e) (auto simp: versions_bounded_def le_Suc_eq)

lemma versions_bounded_schedule [simp]:
  "versions_bounded (w\<lparr>schedule := es\<rparr>) = versions_bounded w"
  by (simp add: versions_bounded_def)

lemma versions_bounded_calls [simp]:
  "versions_bounded (record_call c w) = versions_bounded w"
  by (simp add: versions_bounded_def record_call_def)

lemma versions_bounded_log [simp]:
  "versions_bounded (logInfo msg kvs w) = versions_bounded w"
  by (simp add: versions_bounded_def)

lemma begin_call_bounded:
  "versions_bounded w \<Longrightarrow> begin_call w = (fault, w1) \<Longrightarrow> versions_bounded w1"
  by (auto simp: begin_call_def apply_event_bounded split: list.splits)

lemma client_Get_bounded:
  "versions_bounded w \<Longrightarrow> client_Get key w = (res, w1) \<Longrightarrow> versions_bounded w1"
  by (auto simp: client_Get_def Let_def split: prod.splits dest: begin_call_bounded)

lemma client_List_bounded:
  "versions_bounded w \<Longrightarrow> client_List ns w = (res, w1) \<Longrightarrow> versions_bounded w1"
  by (auto simp: client_List_def Let_def split: prod.splits dest: begin_call_bounded)

lemma client_Update_bounded:
  assumes "versions_bounded w" and "client_Update obj w = (res, w1)"
  shows "versions_bounded w1"
proof -
  obtain fault w0 where b: "begin_call w = (fault, w0)" by (cases "begin_call w")
  have "versions_bounded w0" using assms(1) b by (rule begin_call_bounded)
  then show ?thesis
    using assms(2) b
    by (auto simp: client_Update_def Let_def versions_bounded_def record_call_def le_Suc_eq
        split: option.splits if_splits)
qed

lemma begin_call_same_version:
  assumes "versions_bounded w" and "begin_call w = (fault, w1)"
    and "secrets w key = Some b" and "secrets w1 key = Some b'"
    and "ResourceVersion b' = ResourceVersion b"
  shows "b' = b"
proof (cases "schedule w")
  case Nil
  then show ?thesis using assms by (simp add: begin_call_def)
next
  case (Cons e es)
  have le: "ResourceVersion b \<le> revision w"
    using assms(1,3) unfolding versions_bounded_def by blast
  show ?thesis
    using assms(2,3,4,5) Cons le
    by (cases e) (auto simp: begin_call_def split: if_splits)
qed

lemma client_Update_success:
  assumes "versions_bounded w" and "client_Update obj w = (None, w1)"
    and "secrets w (key_of obj) = Some b" and "ResourceVersion obj = ResourceVersion b"
  shows "calls w1 = calls w @ [Update obj (Some b) None]"
proof -
  obtain fault w0 where bc: "begin_call w = (fault, w0)" by (cases "begin_call w")
  have c0: "calls w0 = calls w" using bc begin_call_calls [of w] by simp
  from assms(2) bc obtain b' where held: "secrets w0 (key_of obj) = Some b'"
      and ver: "ResourceVersion b' = ResourceVersion obj"
    by (auto simp: client_Update_def Let_def split: option.splits if_splits)
  have "b' = b"
    using assms(1) bc assms(3) held ver assms(4) by (intro begin_call_same_version) simp_all
  then show ?thesis
    using assms(2) bc held ver c0
    by (auto simp: client_Update_def Let_def record_call_def split: option.splits if_splits)
qed

lemma sleep_bounded [simp]: "versions_bounded (sleep d w) = versions_bounded w"
  by (simp add: sleep_def)

lemma tryUpdateLoop_writes:
  assumes "versions_bounded w"
    and "tryUpdateLoop n d f key (updateFinalizers a c x) w = (e, w')"
  shows "\<exists>cs. calls w' = calls w @ cs \<and>
           (\<forall>obj held. Update obj held None \<in> set cs \<longrightarrow>
              (\<exists>old. held = Some old \<and> obj = updateFinalizers a c x (secret_of key old)))"
  using assms
proof (induction n arbitrary: d w)
  case 0
  then show ?case by simp
next
  case (Suc n)
  let ?t = "updateFinalizers a c x"
  obtain res w1 where g: "client_Get key w = (res, w1)" by (cases "client_Get key w")
  note c1 = client_Get_calls [OF g]
  have inv1: "versions_bounded w1" using Suc.prems(1) g by (rule client_Get_bounded)
  show ?case
  proof (cases res)
    case (Inl err)
    then show ?thesis using Suc.prems(2) g c1 by auto
  next
    case (Inr s)
    then obtain b where b: "secrets w1 key = Some b" and s: "s = secret_of key b"
      using client_Get_Inr g by blast
    obtain ures w2 where u: "client_Update (?t s) w1 = (ures, w2)"
      by (cases "client_Update (?t s) w1")
    have inv2: "versions_bounded w2" using inv1 u by (rule client_Update_bounded)
    show ?thesis
    proof (cases ures)
      case None
      have "calls w2 = calls w1 @ [Update (?t s) (Some b) None]"
        using inv1 u [unfolded None] by (rule client_Update_success) (simp_all add: b s)
      moreover have "w' = w2" using Suc.prems(2) g Inr u None by simp
      ultimately show ?thesis using c1 s by auto
    next
      case (Some err)
      from client_Update_calls [OF u] obtain held
        where c2: "calls w2 = calls w1 @ [Update (?t s) held (Some err)]" using Some by blast
      show ?thesis
      proof (cases "err = Conflict")
        case False
        then have "w' = w2" using Suc.prems(2) g Inr u Some by simp
        then show ?thesis using c1 c2 by auto
      next
        case True
        then have run: "tryUpdateLoop n (d * f) f key ?t (sleep d w2) = (e, w')"
          using Suc.prems(2) g Inr u Some by simp
        have "versions_bounded (sleep d w2)" using inv2 by simp
        from Suc.IH [OF this run] obtain rest where
          rest: "calls w' = calls (sleep d w2) @ rest"
            "\<forall>obj held. Update obj held None \<in> set rest \<longrightarrow>
              (\<exists>old. held = Some old \<and> obj = ?t (secret_of key old))"
          by blast
        have "calls w' = calls w @ (Get key res # Update (?t s) held (Some err) # Sleep d # rest)"
          using rest(1) c1 c2 by simp
        then show ?thesis using rest(2) by (intro exI conjI) (assumption, auto)
      qed
    qed
  qed
qed

subsection \<open>Evaluating runs\<close>

lemma tryUpdateLoop_unfold:
  "0 < n \<Longrightarrow> tryUpdateLoop n d f key t w =
     (case client_Get key w of
        (Inl err, w1) \<Rightarrow> (Some err, w1)
      | (Inr obj, w1) \<Rightarrow>
          (case client_Update (t obj) w1 of
             (None, w2) \<Rightarrow> (None, w2)
           | (Some err, w2) \<Rightarrow>
               if err = Conflict then tryUpdateLoop (n - 1) (d * f) f key t (sleep d w2)
               else (Some err, w2)))"
  by (cases n) (auto split: prod.splits sum.splits option.splits)

lemmas run_defs = tryUpdateLoop_unfold
  Reconcile_def client_Get_def client_List_def client_Update_def begin_call_def record_call_def
  secret_of_def body_of_def key_of_def NewString_def Has_def Insert_def Delete_def
  UnsortedList_def TryUpdate_def DefaultBackoff_def sleep_def logInfo_def logError_def
  IgnoreNotFound_def updateFinalizers_def Second_def Millisecond_def Let_def
  example_filter_def example_reconciler_def db_creds_def web_def example_world_def

subsection \<open>The claims\<close>

text \<open>
  Claim C1. With no write of another client during the run, after a reconcile that completes
  successfully, that is, returns the empty Result and no error, the Secret of the request, if it
  still exists, carries the controller's finalizer exactly if some ManagedResource of its
  namespace, for which the ClassFilter is responsible, names it among its secretRefs.
\<close>

theorem finalizer_converged_after_reconcile:
  assumes q: "list_all quiet (schedule w)"
    and ok: "fst (Reconcile r req w) = (\<lparr>Requeue = False, RequeueAfter = 0\<rparr>, None)"
  shows "finalizer_matches_references (classFilter r) req (snd (Reconcile r req w))"
proof -
  let ?F = "FinalizerName (classFilter r)"
  obtain res w1 where g: "client_Get req w = (res, w1)" by (cases "client_Get req w")
  note gq = client_Get_quiet [OF q g]
  show ?thesis
  proof (cases res)
    case (Inl err)
    then have nf: "err = NotFound" using ok g by (auto simp: Reconcile_def split: if_splits)
    then have "secrets w req = None" using gq(5) Inl by simp
    moreover have "snd (Reconcile r req w)
        = logInfo ''Stopping reconciliation of Secret, as it has been deleted'' [] w1"
      using g Inl nf by (simp add: Reconcile_def)
    ultimately show ?thesis using gq(1) by (simp add: finalizer_matches_references_def)
  next
    case (Inr secret)
    then obtain b where b: "secrets w req = Some b" and secret: "secret = secret_of req b"
      using gq(6) by blast
    obtain lres w2 where l: "client_List (Namespace secret) w1 = (lres, w2)"
      by (cases "client_List (Namespace secret) w1")
    note lq = client_List_quiet [OF gq(4) l]
    show ?thesis
    proof (cases lres)
      case (Inl err)
      then show ?thesis using ok g Inr l by (simp add: Reconcile_def)
    next
      case items: (Inr resourceList)
      then have rl: "resourceList = filter (\<lambda>m. mr_Namespace m = fst req) (resources w)"
        using lq(5) gq(2) secret by simp
      define referenced where "referenced = resourcesLoop (classFilter r) secret resourceList False"
      have ref: "referenced = (\<exists>m\<in>set (resources w). mr_Namespace m = fst req
                    \<and> Responsible (classFilter r) m \<and> snd req \<in> set (mr_SecretRefs m))"
        unfolding referenced_def resourcesLoop_eq rl secret by auto
      show ?thesis
      proof (cases "referenced = (?F \<in> set (Finalizers secret))")
        case True
        then have "Reconcile r req w = ((\<lparr>Requeue = False, RequeueAfter = 0\<rparr>, None), w2)"
          unfolding referenced_def
          by (rule Reconcile_converged [OF g [unfolded Inr] l [unfolded items]])
        then show ?thesis
          using True ref b secret lq(1,2) gq(1,2)
          by (simp add: finalizer_matches_references_def)
      next
        case False
        let ?w3 = "logInfo (decisionLog referenced) [(''finalizer'', ?F)] w2"
        let ?t = "updateFinalizers referenced (\<not> referenced) ?F"
        obtain err w4 where tu: "TryUpdate DefaultBackoff secret ?t ?w3 = (err, w4)"
          by (cases "TryUpdate DefaultBackoff secret ?t ?w3")
        have rec: "Reconcile r req w =
           (if err = None \<or> err = Some NotFound then
              ((\<lparr>Requeue = False, RequeueAfter = 0\<rparr>, None), w4)
            else ((\<lparr>Requeue = False, RequeueAfter = 5 * Second\<rparr>, None),
                  logError err ''failed to update finalizers of Secret'' w4))"
          by (rule Reconcile_update [OF g [unfolded Inr] l [unfolded items] referenced_def False tu])
        have loop: "tryUpdateLoop (Suc 3) (10 * Millisecond) 5 req ?t ?w3 = (err, w4)"
          using tu secret by (simp add: TryUpdate_def DefaultBackoff_def numeral_eq_Suc)
        have q3: "list_all quiet (schedule ?w3)" using lq(4) by simp
        have b3: "secrets ?w3 req = Some b" using b lq(1) gq(1) by simp
        note tq = tryUpdateLoop_quiet [OF q3 b3 loop]
        have "err = None \<or> err = Some NotFound"
          using ok rec by (auto simp: Second_def split: if_splits)
        then have fin: "err = None" "secrets w4 = (secrets ?w3)(req \<mapsto>
            (body_of (?t (secret_of req b)))\<lparr>ResourceVersion := Suc (revision ?w3)\<rparr>)"
          using tq(2) by auto
        have "snd (Reconcile r req w) = w4" using rec fin(1) by simp
        moreover have "resources w4 = resources w" using tq(1) lq(2) gq(2) by simp
        moreover have "(?F \<in> set (Finalizers (?t (secret_of req b)))) = referenced"
          using False secret by (auto simp: updateFinalizers_set)
        ultimately show ?thesis
          using fin(2) ref by (simp add: finalizer_matches_references_def)
      qed
    qed
  qed
qed

text \<open>
  Scenario A of the specification: \<open>web\<close> references the Secret, which has a foreign finalizer
  only. After the run the Secret carries both finalizers.
\<close>

theorem finalizer_converged_after_reconcile_witness:
  "list_all quiet (schedule (example_world [''foreign''] [web] [Quiet, Quiet]))
   \<and> fst (Reconcile example_reconciler db_creds (example_world [''foreign''] [web] [Quiet, Quiet]))
       = (\<lparr>Requeue = False, RequeueAfter = 0\<rparr>, None)
   \<and> finalizer_matches_references (classFilter example_reconciler) db_creds
       (snd (Reconcile example_reconciler db_creds (example_world [''foreign''] [web] [Quiet, Quiet])))
   \<and> secrets (snd (Reconcile example_reconciler db_creds
         (example_world [''foreign''] [web] [Quiet, Quiet]))) db_creds
       = Some \<lparr>ResourceVersion = 8,
           Finalizers = [''foreign'', ''resources.gardener.cloud/gardener-resource-manager''],
           Data = ''payload''\<rparr>"
proof -
  have q: "list_all quiet (schedule (example_world [''foreign''] [web] [Quiet, Quiet]))"
    by (simp add: example_world_def)
  have ok: "fst (Reconcile example_reconciler db_creds (example_world [''foreign''] [web] [Quiet, Quiet]))
       = (\<lparr>Requeue = False, RequeueAfter = 0\<rparr>, None)"
    by (simp add: run_defs)
  have "secrets (snd (Reconcile example_reconciler db_creds
         (example_world [''foreign''] [web] [Quiet, Quiet]))) db_creds
       = Some \<lparr>ResourceVersion = 8,
           Finalizers = [''foreign'', ''resources.gardener.cloud/gardener-resource-manager''],
           Data = ''payload''\<rparr>"
    by (simp add: run_defs)
  then show ?thesis
    using q ok finalizer_converged_after_reconcile [OF q ok] by simp
qed

text \<open>
  The empty Result is part of the success. When the write fails, Reconcile logs the failure and
  returns a Result that asks for a requeue after 5 seconds, also with a nil error; after such a
  run the finalizer can be missing on a referenced Secret. Here no other client writes, the
  Get, the List and the read of TryUpdate succeed, and the Update fails with a server error.
\<close>

lemma requeue_run_not_converged:
  "list_all quiet [Quiet, Quiet, Quiet, Fail ''etcdserver: request timed out'']
   \<and> snd (fst (Reconcile example_reconciler db_creds
        (example_world [''foreign''] [web]
           [Quiet, Quiet, Quiet, Fail ''etcdserver: request timed out'']))) = None
   \<and> \<not> finalizer_matches_references example_filter db_creds
        (snd (Reconcile example_reconciler db_creds
           (example_world [''foreign''] [web]
              [Quiet, Quiet, Quiet, Fail ''etcdserver: request timed out''])))"
  by (simp add: run_defs finalizer_matches_references_def)

text \<open>
  Claim C2, as amended. When a write conflicts, the Secret is read again and the add/remove
  decision that was taken once, from the first read and the first list, is applied to the
  finalizers that were read; the ManagedResources are not listed again and the decision is
  not taken again. The calls after the list have the shape \<open>retry_trace\<close> with four attempts
  and a first pause of 10 ms that grows by the factor 5. In particular every Update follows a
  Get of the Secret directly and submits \<open>updateFinalizers\<close> with that decision, applied to the
  Secret that the Get returned; whether the submitted object carries the controller's
  finalizer is the decision, whatever the store holds by then; there are at most four Updates;
  and the pauses after the conflicts are 10 ms, 50 ms, 250 ms and 1250 ms, in this order.
\<close>

theorem retry_replays_decision:
  assumes "client_Get req w = (Inr secret, w1)"
    and "client_List (Namespace secret) w1 = (Inr resourceList, w2)"
    and "referenced = resourcesLoop (classFilter r) secret resourceList False"
    and "referenced \<noteq> (FinalizerName (classFilter r) \<in> set (Finalizers secret))"
    and "cs = new_calls w2 (snd (Reconcile r req w))"
  shows "(\<exists>err. retry_trace 4 (10 * Millisecond) 5 req
           (updateFinalizers referenced (\<not> referenced) (FinalizerName (classFilter r))) cs err)
       \<and> writes_follow_reads req
           (updateFinalizers referenced (\<not> referenced) (FinalizerName (classFilter r))) cs
       \<and> (\<forall>obj held res. Update obj held res \<in> set cs \<longrightarrow>
             (FinalizerName (classFilter r) \<in> set (Finalizers obj)) = referenced)
       \<and> length (filter is_Update cs) \<le> 4
       \<and> pauses cs = take (length (pauses cs))
             [10 * Millisecond, 50 * Millisecond, 250 * Millisecond, 1250 * Millisecond]"
proof -
  let ?F = "FinalizerName (classFilter r)"
  let ?w3 = "logInfo (decisionLog referenced) [(''finalizer'', ?F)] w2"
  let ?t = "updateFinalizers referenced (\<not> referenced) ?F"
  obtain err w4 where tu: "TryUpdate DefaultBackoff secret ?t ?w3 = (err, w4)"
    by (cases "TryUpdate DefaultBackoff secret ?t ?w3")
  have "Reconcile r req w =
           (if err = None \<or> err = Some NotFound then
              ((\<lparr>Requeue = False, RequeueAfter = 0\<rparr>, None), w4)
            else ((\<lparr>Requeue = False, RequeueAfter = 5 * Second\<rparr>, None),
                  logError err ''failed to update finalizers of Secret'' w4))"
    by (rule Reconcile_update [OF assms(1-4) tu])
  then have calls_eq: "calls (snd (Reconcile r req w)) = calls w4" by simp
  from TryUpdate_trace [OF tu] obtain cs' where cs': "calls w4 = calls ?w3 @ cs'"
      "retry_trace 4 (10 * Millisecond) 5 (key_of secret) ?t cs' err"
    by blast
  have cs: "cs = cs'" using assms(5) calls_eq cs'(1) by (simp add: new_calls_def)
  have key: "key_of secret = req" using client_Get_key [OF assms(1)] by (simp add: key_of_def)
  have tr: "retry_trace 4 (10 * Millisecond) 5 req ?t cs err" using cs'(2) cs key by simp
  have "\<exists>err. retry_trace 4 (10 * Millisecond) 5 req ?t cs err" using tr by blast
  moreover have "writes_follow_reads req ?t cs" using tr by (rule retry_trace_follow)
  moreover have "(?F \<in> set (Finalizers obj)) = referenced"
    if "Update obj held res \<in> set cs" for obj held res
  proof -
    from retry_trace_objects [OF tr that] obtain s where "obj = ?t s" by blast
    then show ?thesis by (auto simp: updateFinalizers_set)
  qed
  moreover have "length (filter is_Update cs) \<le> 4" using tr by (rule retry_trace_count)
  moreover have "pauses cs = take (length (pauses cs))
             [10 * Millisecond, 50 * Millisecond, 250 * Millisecond, 1250 * Millisecond]"
    using retry_trace_pauses [OF tr] unfolding backoff_pauses_default .
  ultimately show ?thesis by blast
qed

text \<open>
  The desired state is not recomputed on a retry. Another client rewrites the Secret between
  the read and the first write, which therefore conflicts, and the only ManagedResource is
  deleted before the read of the retry. The retried write still adds the finalizer: the run
  ends without error, no ManagedResource is left, and the Secret carries the finalizer.
\<close>

theorem retry_replays_stale_decision:
  "map returned (calls (snd (Reconcile example_reconciler db_creds
      (example_world [''foreign''] [web]
         [Quiet, Quiet, Quiet, PutSecret db_creds [''foreign''] ''rotated'', SetResources []]))))
     = [None, None, None, Some Conflict, None, None, None]
   \<and> resources (snd (Reconcile example_reconciler db_creds
      (example_world [''foreign''] [web]
         [Quiet, Quiet, Quiet, PutSecret db_creds [''foreign''] ''rotated'', SetResources []]))) = []
   \<and> secrets (snd (Reconcile example_reconciler db_creds
      (example_world [''foreign''] [web]
         [Quiet, Quiet, Quiet, PutSecret db_creds [''foreign''] ''rotated'', SetResources []]))) db_creds
     = Some \<lparr>ResourceVersion = 10,
         Finalizers = [''foreign'', ''resources.gardener.cloud/gardener-resource-manager''],
         Data = ''rotated''\<rparr>
   \<and> \<not> finalizer_matches_references example_filter db_creds
      (snd (Reconcile example_reconciler db_creds
        (example_world [''foreign''] [web]
           [Quiet, Quiet, Quiet, PutSecret db_creds [''foreign''] ''rotated'', SetResources []])))"
  by (simp add: run_defs finalizer_matches_references_def)

text \<open>The same run: one pause of 10 ms, and both writes follow a read.\<close>

theorem retry_replays_decision_witness:
  "pauses (new_calls
      (snd (client_List ''shoot'' (snd (client_Get db_creds
         (example_world [''foreign''] [web]
            [Quiet, Quiet, Quiet, PutSecret db_creds [''foreign''] ''rotated'', SetResources []])))))
      (snd (Reconcile example_reconciler db_creds
         (example_world [''foreign''] [web]
            [Quiet, Quiet, Quiet, PutSecret db_creds [''foreign''] ''rotated'', SetResources []]))))
     = [10 * Millisecond]
   \<and> writes_follow_reads db_creds
       (updateFinalizers True False ''resources.gardener.cloud/gardener-resource-manager'')
       (new_calls
          (snd (client_List ''shoot'' (snd (client_Get db_creds
             (example_world [''foreign''] [web]
                [Quiet, Quiet, Quiet, PutSecret db_creds [''foreign''] ''rotated'', SetResources []])))))
          (snd (Reconcile example_reconciler db_creds
             (example_world [''foreign''] [web]
                [Quiet, Quiet, Quiet, PutSecret db_creds [''foreign''] ''rotated'', SetResources []]))))"
proof -
  let ?W = "example_world [''foreign''] [web]
            [Quiet, Quiet, Quiet, PutSecret db_creds [''foreign''] ''rotated'', SetResources []]"
  let ?s = "secret_of db_creds \<lparr>ResourceVersion = 3, Finalizers = [''foreign''], Data = ''payload''\<rparr>"
  let ?w1 = "snd (client_Get db_creds ?W)"
  let ?w2 = "snd (client_List ''shoot'' ?w1)"
  have g: "client_Get db_creds ?W = (Inr ?s, ?w1)" by (simp add: run_defs)
  have l: "client_List (Namespace ?s) ?w1 = (Inr [web], ?w2)" by (simp add: run_defs)
  have r: "True = resourcesLoop (classFilter example_reconciler) ?s [web] False"
    by (simp add: run_defs)
  have n: "True \<noteq> (FinalizerName (classFilter example_reconciler) \<in> set (Finalizers ?s))"
    by (simp add: run_defs)
  have p: "pauses (new_calls ?w2 (snd (Reconcile example_reconciler db_creds ?W))) = [10 * Millisecond]"
    by (simp add: run_defs new_calls_def)
  from retry_replays_decision [OF g l r n refl] p show ?thesis
    by (simp add: example_reconciler_def example_filter_def)
qed

text \<open>
  Claim C3. Reconcile is idempotent on a converged Secret. When the Secret that Reconcile reads
  carries the controller's finalizer exactly if some listed ManagedResource, for which the
  ClassFilter is responsible, names it among its secretRefs (it is referenced and has the
  finalizer, or it is unreferenced and has it not), Reconcile returns the empty Result and no
  error. Its calls to the client are the Get and the List, so there is no write, and nothing is
  logged.
\<close>

theorem Reconcile_converged_no_write:
  assumes "client_Get req w = (Inr secret, w1)"
    and "client_List (Namespace secret) w1 = (Inr resourceList, w2)"
    and "FinalizerName (classFilter r) \<in> set (Finalizers secret) \<longleftrightarrow>
         (\<exists>m\<in>set resourceList. Responsible (classFilter r) m \<and> Name secret \<in> set (mr_SecretRefs m))"
  shows "Reconcile r req w = ((\<lparr>Requeue = False, RequeueAfter = 0\<rparr>, None), w2)
       \<and> calls w2 = calls w @ [Get req (Inr secret), List (Namespace secret) (Inr resourceList)]
       \<and> log w2 = log w"
proof -
  have "resourcesLoop (classFilter r) secret resourceList False
         = (FinalizerName (classFilter r) \<in> set (Finalizers secret))"
    using assms(3) by (simp add: resourcesLoop_eq)
  then have "Reconcile r req w = ((\<lparr>Requeue = False, RequeueAfter = 0\<rparr>, None), w2)"
    using assms(1,2) by (rule Reconcile_converged [rotated 2])
  moreover have "calls w2 = calls w @ [Get req (Inr secret), List (Namespace secret) (Inr resourceList)]"
    using client_Get_calls [OF assms(1)] client_List_calls [OF assms(2)] by simp
  moreover have "log w2 = log w"
    using client_Get_log [OF assms(1)] client_List_log [OF assms(2)] by simp
  ultimately show ?thesis by simp
qed

text \<open>
  A referenced Secret that has the finalizer, and an unreferenced one that has it not: no
  Update is among the calls.
\<close>

theorem Reconcile_converged_no_write_witness:
  "fst (Reconcile example_reconciler db_creds
          (example_world [''resources.gardener.cloud/gardener-resource-manager''] [web] []))
     = (\<lparr>Requeue = False, RequeueAfter = 0\<rparr>, None)
   \<and> filter is_Update (calls (snd (Reconcile example_reconciler db_creds
          (example_world [''resources.gardener.cloud/gardener-resource-manager''] [web] [])))) = []
   \<and> fst (Reconcile example_reconciler db_creds (example_world [''foreign''] [] []))
     = (\<lparr>Requeue = False, RequeueAfter = 0\<rparr>, None)
   \<and> filter is_Update (calls (snd (Reconcile example_reconciler db_creds
          (example_world [''foreign''] [] [])))) = []"
  using Reconcile_converged_no_write [of db_creds
      "example_world [''resources.gardener.cloud/gardener-resource-manager''] [web] []"
      "secret_of db_creds \<lparr>ResourceVersion = 3,
         Finalizers = [''resources.gardener.cloud/gardener-resource-manager''], Data = ''payload''\<rparr>"
      "snd (client_Get db_creds
         (example_world [''resources.gardener.cloud/gardener-resource-manager''] [web] []))"
      "[web]"
      "snd (client_List ''shoot'' (snd (client_Get db_creds
         (example_world [''resources.gardener.cloud/gardener-resource-manager''] [web] []))))"
      example_reconciler]
    Reconcile_converged_no_write [of db_creds
      "example_world [''foreign''] [] []"
      "secret_of db_creds \<lparr>ResourceVersion = 3, Finalizers = [''foreign''], Data = ''payload''\<rparr>"
      "snd (client_Get db_creds (example_world [''foreign''] [] []))"
      "[]"
      "snd (client_List ''shoot'' (snd (client_Get db_creds (example_world [''foreign''] [] []))))"
      example_reconciler]
  by (simp add: run_defs)

text \<open>
  Claim C6. When TryUpdate returns an error other than not-found (the attempts are used up, or
  a read or a write failed for another reason), Reconcile returns no error and a Result that
  asks for a requeue after 5 seconds. The error goes to the log and is not returned.
\<close>

theorem update_failure_requeues:
  assumes "client_Get req w = (Inr secret, w1)"
    and "client_List (Namespace secret) w1 = (Inr resourceList, w2)"
    and "referenced = resourcesLoop (classFilter r) secret resourceList False"
    and "referenced \<noteq> (FinalizerName (classFilter r) \<in> set (Finalizers secret))"
    and "TryUpdate DefaultBackoff secret
           (updateFinalizers referenced (\<not> referenced) (FinalizerName (classFilter r)))
           (logInfo (decisionLog referenced) [(''finalizer'', FinalizerName (classFilter r))] w2)
         = (Some err, w4)"
    and "err \<noteq> NotFound"
  shows "Reconcile r req w =
           ((\<lparr>Requeue = False, RequeueAfter = 5 * Second\<rparr>, None),
            w4\<lparr>log := log w4 @ [Error (Some err) ''failed to update finalizers of Secret'']\<rparr>)"
  using Reconcile_update [OF assms(1-5)] assms(6) by (simp add: logError_def)

text \<open>
  Another client rewrites the Secret before each of the four writes. Every write conflicts,
  TryUpdate gives up with \<^verbatim>\<open>ErrWaitTimeout\<close>, and Reconcile asks for a requeue after 5 seconds.
\<close>

theorem update_failure_requeues_witness:
  "fst (Reconcile example_reconciler db_creds
      (example_world [''foreign''] [web]
        [Quiet, Quiet, Quiet, PutSecret db_creds [''foreign''] ''a'', Quiet,
         PutSecret db_creds [''foreign''] ''b'', Quiet, PutSecret db_creds [''foreign''] ''c'',
         Quiet, PutSecret db_creds [''foreign''] ''d'']))
     = (\<lparr>Requeue = False, RequeueAfter = 5000000000\<rparr>, None)
   \<and> last (log (snd (Reconcile example_reconciler db_creds
      (example_world [''foreign''] [web]
        [Quiet, Quiet, Quiet, PutSecret db_creds [''foreign''] ''a'', Quiet,
         PutSecret db_creds [''foreign''] ''b'', Quiet, PutSecret db_creds [''foreign''] ''c'',
         Quiet, PutSecret db_creds [''foreign''] ''d'']))))
     = Error (Some ErrWaitTimeout) ''failed to update finalizers of Secret''"
proof -
  let ?W = "example_world [''foreign''] [web]
        [Quiet, Quiet, Quiet, PutSecret db_creds [''foreign''] ''a'', Quiet,
         PutSecret db_creds [''foreign''] ''b'', Quiet, PutSecret db_creds [''foreign''] ''c'',
         Quiet, PutSecret db_creds [''foreign''] ''d'']"
  let ?s = "secret_of db_creds \<lparr>ResourceVersion = 3, Finalizers = [''foreign''], Data = ''payload''\<rparr>"
  let ?w1 = "snd (client_Get db_creds ?W)"
  let ?w2 = "snd (client_List ''shoot'' ?w1)"
  let ?tu = "TryUpdate DefaultBackoff ?s
           (updateFinalizers True (\<not> True) (FinalizerName (classFilter example_reconciler)))
           (logInfo (decisionLog True)
              [(''finalizer'', FinalizerName (classFilter example_reconciler))] ?w2)"
  have g: "client_Get db_creds ?W = (Inr ?s, ?w1)" by (simp add: run_defs)
  have l: "client_List (Namespace ?s) ?w1 = (Inr [web], ?w2)" by (simp add: run_defs)
  have r: "True = resourcesLoop (classFilter example_reconciler) ?s [web] False"
    by (simp add: run_defs)
  have n: "True \<noteq> (FinalizerName (classFilter example_reconciler) \<in> set (Finalizers ?s))"
    by (simp add: run_defs)
  have t: "?tu = (Some ErrWaitTimeout, snd ?tu)"
    by (simp add: run_defs decisionLog_def)
  have e: "ErrWaitTimeout \<noteq> NotFound" by simp
  from update_failure_requeues [OF g l r n t e] show ?thesis
    by (simp add: Second_def)
qed

text \<open>
  Claim C7. Not-found ends the reconciliation without an error in both places. When the first
  Get reports not-found, Reconcile returns the empty Result and no error, logs that the Secret
  has been deleted and makes no other call. When TryUpdate returns not-found, Reconcile returns
  the empty Result and no error, so no requeue. Seen from the trace: whenever the last call of
  a run reported not-found, the run returned the empty Result and no error.
\<close>

theorem not_found_is_success:
  "(client_Get req w = (Inl NotFound, w1) \<longrightarrow>
      Reconcile r req w =
        ((\<lparr>Requeue = False, RequeueAfter = 0\<rparr>, None),
         logInfo ''Stopping reconciliation of Secret, as it has been deleted'' [] w1)
      \<and> new_calls w (snd (Reconcile r req w)) = [Get req (Inl NotFound)])
   \<and> (client_Get req w = (Inr secret, w1)
      \<and> client_List (Namespace secret) w1 = (Inr resourceList, w2)
      \<and> referenced = resourcesLoop (classFilter r) secret resourceList False
      \<and> referenced \<noteq> (FinalizerName (classFilter r) \<in> set (Finalizers secret))
      \<and> TryUpdate DefaultBackoff secret
           (updateFinalizers referenced (\<not> referenced) (FinalizerName (classFilter r)))
           (logInfo (decisionLog referenced) [(''finalizer'', FinalizerName (classFilter r))] w2)
         = (Some NotFound, w4) \<longrightarrow>
      Reconcile r req w = ((\<lparr>Requeue = False, RequeueAfter = 0\<rparr>, None), w4))
   \<and> (returned (last (calls (snd (Reconcile r req w)))) = Some NotFound \<longrightarrow>
      fst (Reconcile r req w) = (\<lparr>Requeue = False, RequeueAfter = 0\<rparr>, None))"
proof (intro conjI impI)
  assume g: "client_Get req w = (Inl NotFound, w1)"
  then show "Reconcile r req w =
        ((\<lparr>Requeue = False, RequeueAfter = 0\<rparr>, None),
         logInfo ''Stopping reconciliation of Secret, as it has been deleted'' [] w1)"
    by (simp add: Reconcile_def)
  then show "new_calls w (snd (Reconcile r req w)) = [Get req (Inl NotFound)]"
    using client_Get_calls [OF g] by (simp add: new_calls_def)
next
  assume h: "client_Get req w = (Inr secret, w1)
      \<and> client_List (Namespace secret) w1 = (Inr resourceList, w2)
      \<and> referenced = resourcesLoop (classFilter r) secret resourceList False
      \<and> referenced \<noteq> (FinalizerName (classFilter r) \<in> set (Finalizers secret))
      \<and> TryUpdate DefaultBackoff secret
           (updateFinalizers referenced (\<not> referenced) (FinalizerName (classFilter r)))
           (logInfo (decisionLog referenced) [(''finalizer'', FinalizerName (classFilter r))] w2)
         = (Some NotFound, w4)"
  have "Reconcile r req w =
           (if Some NotFound = None \<or> Some NotFound = Some NotFound then
              ((\<lparr>Requeue = False, RequeueAfter = 0\<rparr>, None), w4)
            else ((\<lparr>Requeue = False, RequeueAfter = 5 * Second\<rparr>, None),
                  logError (Some NotFound) ''failed to update finalizers of Secret'' w4))"
    using h by (intro Reconcile_update) blast+
  then show "Reconcile r req w = ((\<lparr>Requeue = False, RequeueAfter = 0\<rparr>, None), w4)"
    by simp
next
  assume nf: "returned (last (calls (snd (Reconcile r req w)))) = Some NotFound"
  obtain res w1 where g: "client_Get req w = (res, w1)" by (cases "client_Get req w")
  note c1 = client_Get_calls [OF g]
  show "fst (Reconcile r req w) = (\<lparr>Requeue = False, RequeueAfter = 0\<rparr>, None)"
  proof (cases res)
    case (Inl err)
    then show ?thesis using g c1 nf by (auto simp: Reconcile_def split: if_splits)
  next
    case (Inr secret)
    obtain lres w2 where l: "client_List (Namespace secret) w1 = (lres, w2)"
      by (cases "client_List (Namespace secret) w1")
    note c2 = client_List_calls [OF l]
    show ?thesis
    proof (cases lres)
      case (Inl err)
      then obtain m where "err = ServerError m" using l client_List_error by blast
      then show ?thesis using g Inr l Inl c2 nf by (simp add: Reconcile_def)
    next
      case items: (Inr resourceList)
      define referenced where "referenced = resourcesLoop (classFilter r) secret resourceList False"
      show ?thesis
      proof (cases "referenced = (FinalizerName (classFilter r) \<in> set (Finalizers secret))")
        case True
        then show ?thesis
          using Reconcile_converged [of req w secret w1 resourceList w2 r] g Inr l items
          by (simp add: referenced_def)
      next
        case False
        obtain err w4 where tu: "TryUpdate DefaultBackoff secret
           (updateFinalizers referenced (\<not> referenced) (FinalizerName (classFilter r)))
           (logInfo (decisionLog referenced) [(''finalizer'', FinalizerName (classFilter r))] w2)
         = (err, w4)"
          by (cases "TryUpdate DefaultBackoff secret
           (updateFinalizers referenced (\<not> referenced) (FinalizerName (classFilter r)))
           (logInfo (decisionLog referenced) [(''finalizer'', FinalizerName (classFilter r))] w2)")
        have rec: "Reconcile r req w =
           (if err = None \<or> err = Some NotFound then
              ((\<lparr>Requeue = False, RequeueAfter = 0\<rparr>, None), w4)
            else ((\<lparr>Requeue = False, RequeueAfter = 5 * Second\<rparr>, None),
                  logError err ''failed to update finalizers of Secret'' w4))"
          by (rule Reconcile_update [OF g [unfolded Inr] l [unfolded items] referenced_def False tu])
        then have calls_eq: "calls (snd (Reconcile r req w)) = calls w4" by simp
        from TryUpdate_trace [OF tu] obtain cs where cs: "calls w4 = calls (logInfo (decisionLog referenced)
                [(''finalizer'', FinalizerName (classFilter r))] w2) @ cs"
            "retry_trace 4 (10 * Millisecond) 5 (key_of secret)
               (updateFinalizers referenced (\<not> referenced) (FinalizerName (classFilter r))) cs err"
          by blast
        have ne: "cs \<noteq> []"
          using cs(2) by (rule retry_trace_nonempty) simp
        then have "returned (last cs) = Some NotFound"
          using nf calls_eq cs(1) by simp
        with cs(2) ne have "err = Some NotFound" by (rule retry_trace_last)
        then show ?thesis using rec by simp
      qed
    qed
  qed
qed

text \<open>
  A request for a Secret that does not exist, and a Secret that another client deletes just
  before the write.
\<close>

theorem not_found_is_success_witness:
  "Reconcile example_reconciler (''shoot'', ''gone'') (example_world [''foreign''] [web] [])
     = ((\<lparr>Requeue = False, RequeueAfter = 0\<rparr>, None),
        (example_world [''foreign''] [web] [])
          \<lparr>calls := [Get (''shoot'', ''gone'') (Inl NotFound)],
            log := [Info ''Stopping reconciliation of Secret, as it has been deleted'' []]\<rparr>)
   \<and> returned (last (calls (snd (Reconcile example_reconciler db_creds
        (example_world [''foreign''] [web] [Quiet, Quiet, Quiet, DeleteSecret db_creds])))))
      = Some NotFound
   \<and> fst (Reconcile example_reconciler db_creds
        (example_world [''foreign''] [web] [Quiet, Quiet, Quiet, DeleteSecret db_creds]))
      = (\<lparr>Requeue = False, RequeueAfter = 0\<rparr>, None)"
proof -
  let ?W = "example_world [''foreign''] [web] []"
  let ?D = "example_world [''foreign''] [web] [Quiet, Quiet, Quiet, DeleteSecret db_creds]"
  have g: "client_Get (''shoot'', ''gone'') ?W = (Inl NotFound, snd (client_Get (''shoot'', ''gone'') ?W))"
    by (simp add: run_defs)
  have w: "logInfo ''Stopping reconciliation of Secret, as it has been deleted'' []
             (snd (client_Get (''shoot'', ''gone'') ?W))
           = ?W\<lparr>calls := [Get (''shoot'', ''gone'') (Inl NotFound)],
                log := [Info ''Stopping reconciliation of Secret, as it has been deleted'' []]\<rparr>"
    by (simp add: run_defs)
  have nf: "returned (last (calls (snd (Reconcile example_reconciler db_creds ?D)))) = Some NotFound"
    by (simp add: run_defs)
  from not_found_is_success [of "(''shoot'', ''gone'')" ?W "snd (client_Get (''shoot'', ''gone'') ?W)"
      example_reconciler] g w
  have first: "Reconcile example_reconciler (''shoot'', ''gone'') ?W
     = ((\<lparr>Requeue = False, RequeueAfter = 0\<rparr>, None),
        ?W\<lparr>calls := [Get (''shoot'', ''gone'') (Inl NotFound)],
            log := [Info ''Stopping reconciliation of Secret, as it has been deleted'' []]\<rparr>)"
    by simp
  from not_found_is_success [of db_creds ?D _ example_reconciler] nf
  have "fst (Reconcile example_reconciler db_creds ?D) = (\<lparr>Requeue = False, RequeueAfter = 0\<rparr>, None)"
    by blast
  with first nf show ?thesis by simp
qed

text \<open>
  Claim C8. Every Update that Reconcile issues is for the Secret of the request. Where the
  resource versions are bounded by the revision of the store, every Update that succeeds
  replaces what the store held by an object with the same Data whose finalizers are those held
  plus, or minus, the controller's finalizer: every other finalizer is a member after the
  write exactly if it was before. With no write of another client, the run leaves the
  ManagedResources and every other Secret as they were, and the Secret of the request keeps its
  Data and its other finalizers.
\<close>

theorem reconcile_frame:
  "(\<forall>obj held res. Update obj held res \<in> set (new_calls w (snd (Reconcile r req w))) \<longrightarrow>
       key_of obj = req)
   \<and> (versions_bounded w \<longrightarrow>
       (\<forall>obj held. Update obj held None \<in> set (new_calls w (snd (Reconcile r req w))) \<longrightarrow>
          (\<exists>old. held = Some old \<and> Data obj = Data old
             \<and> (set (Finalizers obj) = insert (FinalizerName (classFilter r)) (set (Finalizers old))
                \<or> set (Finalizers obj) = set (Finalizers old) - {FinalizerName (classFilter r)})
             \<and> (\<forall>g. g \<noteq> FinalizerName (classFilter r) \<longrightarrow>
                   (g \<in> set (Finalizers obj)) = (g \<in> set (Finalizers old))))))
   \<and> (list_all quiet (schedule w) \<longrightarrow>
       resources (snd (Reconcile r req w)) = resources w
       \<and> (\<forall>key. key \<noteq> req \<longrightarrow> secrets (snd (Reconcile r req w)) key = secrets w key)
       \<and> (case secrets w req of
            None \<Rightarrow> secrets (snd (Reconcile r req w)) req = None
          | Some b \<Rightarrow>
              (\<exists>b'. secrets (snd (Reconcile r req w)) req = Some b' \<and> Data b' = Data b
                 \<and> (\<forall>g. g \<noteq> FinalizerName (classFilter r) \<longrightarrow>
                       (g \<in> set (Finalizers b')) = (g \<in> set (Finalizers b))))))"
proof (intro conjI impI allI)
  fix obj held res
  assume mem: "Update obj held res \<in> set (new_calls w (snd (Reconcile r req w)))"
  show "key_of obj = req"
  proof (cases rule: Reconcile_cases [of req w r])
    case (get_failed err w1)
    then show ?thesis using mem client_Get_calls [OF get_failed(1)]
      by (auto simp: new_calls_def)
  next
    case (list_failed secret w1 err w2)
    then show ?thesis
      using mem client_Get_calls [OF list_failed(1)] client_List_calls [OF list_failed(2)]
      by (auto simp: new_calls_def)
  next
    case (converged secret w1 resourceList w2)
    then show ?thesis
      using mem client_Get_calls [OF converged(1)] client_List_calls [OF converged(2)]
      by (auto simp: new_calls_def)
  next
    case (update secret w1 resourceList w2 referenced err w4)
    from TryUpdate_trace [OF update(3)] obtain cs where cs:
      "calls w4 = calls w2 @ cs"
      "retry_trace 4 (10 * Millisecond) 5 (key_of secret)
         (updateFinalizers referenced (\<not> referenced) (FinalizerName (classFilter r))) cs err"
      by auto
    have key: "key_of secret = req"
      using client_Get_key [OF update(1)] by (simp add: key_of_def)
    have "calls (snd (Reconcile r req w)) = calls w4" using update(4) by auto
    then have "new_calls w (snd (Reconcile r req w))
        = [Get req (Inr secret), List (Namespace secret) (Inr resourceList)] @ cs"
      using cs(1) client_Get_calls [OF update(1)] client_List_calls [OF update(2)]
      by (simp add: new_calls_def)
    then have "Update obj held res \<in> set cs" using mem by simp
    from retry_trace_objects [OF cs(2) this] show ?thesis using key by auto
  qed
next
  fix obj held
  assume inv: "versions_bounded w"
    and mem: "Update obj held None \<in> set (new_calls w (snd (Reconcile r req w)))"
  let ?F = "FinalizerName (classFilter r)"
  have "\<exists>old. held = Some old \<and> Data obj = Data old
             \<and> (set (Finalizers obj) = insert ?F (set (Finalizers old))
                \<or> set (Finalizers obj) = set (Finalizers old) - {?F})"
  proof (cases rule: Reconcile_cases [of req w r])
    case (get_failed err w1)
    then show ?thesis using mem client_Get_calls [OF get_failed(1)]
      by (auto simp: new_calls_def)
  next
    case (list_failed secret w1 err w2)
    then show ?thesis
      using mem client_Get_calls [OF list_failed(1)] client_List_calls [OF list_failed(2)]
      by (auto simp: new_calls_def)
  next
    case (converged secret w1 resourceList w2)
    then show ?thesis
      using mem client_Get_calls [OF converged(1)] client_List_calls [OF converged(2)]
      by (auto simp: new_calls_def)
  next
    case (update secret w1 resourceList w2 referenced err w4)
    let ?w3 = "logInfo (decisionLog referenced) [(''finalizer'', ?F)] w2"
    have inv3: "versions_bounded ?w3"
      using inv client_Get_bounded [OF _ update(1)] client_List_bounded [OF _ update(2)] by simp
    have run: "tryUpdateLoop 4 (10 * Millisecond) 5 (key_of secret)
        (updateFinalizers referenced (\<not> referenced) ?F) ?w3 = (err, w4)"
      using update(3) by (simp add: TryUpdate_def DefaultBackoff_def)
    from tryUpdateLoop_writes [OF inv3 run] obtain cs where cs:
      "calls w4 = calls w2 @ cs"
      "\<forall>obj held. Update obj held None \<in> set cs \<longrightarrow>
         (\<exists>old. held = Some old \<and> obj = updateFinalizers referenced (\<not> referenced) ?F
              (secret_of (key_of secret) old))"
      by auto
    have "calls (snd (Reconcile r req w)) = calls w4" using update(4) by auto
    then have "new_calls w (snd (Reconcile r req w))
        = [Get req (Inr secret), List (Namespace secret) (Inr resourceList)] @ cs"
      using cs(1) client_Get_calls [OF update(1)] client_List_calls [OF update(2)]
      by (simp add: new_calls_def)
    then have "Update obj held None \<in> set cs" using mem by simp
    with cs(2) obtain old where old: "held = Some old"
      "obj = updateFinalizers referenced (\<not> referenced) ?F (secret_of (key_of secret) old)"
      by blast
    then show ?thesis by (cases referenced) (simp_all add: updateFinalizers_set)
  qed
  then obtain old where old: "held = Some old" "Data obj = Data old"
    "set (Finalizers obj) = insert ?F (set (Finalizers old))
      \<or> set (Finalizers obj) = set (Finalizers old) - {?F}"
    by blast
  then have "\<forall>g. g \<noteq> ?F \<longrightarrow> (g \<in> set (Finalizers obj)) = (g \<in> set (Finalizers old))"
    by auto
  with old show "\<exists>old. held = Some old \<and> Data obj = Data old
             \<and> (set (Finalizers obj) = insert ?F (set (Finalizers old))
                \<or> set (Finalizers obj) = set (Finalizers old) - {?F})
             \<and> (\<forall>g. g \<noteq> ?F \<longrightarrow> (g \<in> set (Finalizers obj)) = (g \<in> set (Finalizers old)))"
    by blast
next
  assume q: "list_all quiet (schedule w)"
  let ?F = "FinalizerName (classFilter r)"
  let ?w' = "snd (Reconcile r req w)"
  have all: "resources ?w' = resources w
       \<and> (\<forall>key. key \<noteq> req \<longrightarrow> secrets ?w' key = secrets w key)
       \<and> (case secrets w req of
            None \<Rightarrow> secrets ?w' req = None
          | Some b \<Rightarrow>
              (\<exists>b'. secrets ?w' req = Some b' \<and> Data b' = Data b
                 \<and> (\<forall>g. g \<noteq> ?F \<longrightarrow> (g \<in> set (Finalizers b')) = (g \<in> set (Finalizers b)))))"
  proof (cases rule: Reconcile_cases [of req w r])
    case (get_failed err w1)
    note gq = client_Get_quiet [OF q get_failed(1)]
    have "secrets ?w' = secrets w" "resources ?w' = resources w"
      using get_failed(2) gq(1,2) by auto
    then show ?thesis by (simp split: option.splits)
  next
    case (list_failed secret w1 err w2)
    note gq = client_Get_quiet [OF q list_failed(1)]
    note lq = client_List_quiet [OF gq(4) list_failed(2)]
    have "secrets ?w' = secrets w" "resources ?w' = resources w"
      using list_failed(3) gq(1,2) lq(1,2) by auto
    then show ?thesis by (simp split: option.splits)
  next
    case (converged secret w1 resourceList w2)
    note gq = client_Get_quiet [OF q converged(1)]
    note lq = client_List_quiet [OF gq(4) converged(2)]
    have "secrets ?w' = secrets w" "resources ?w' = resources w"
      using converged(3) gq(1,2) lq(1,2) by auto
    then show ?thesis by (simp split: option.splits)
  next
    case (update secret w1 resourceList w2 referenced err w4)
    note gq = client_Get_quiet [OF q update(1)]
    note lq = client_List_quiet [OF gq(4) update(2)]
    let ?w3 = "logInfo (decisionLog referenced) [(''finalizer'', ?F)] w2"
    let ?t = "updateFinalizers referenced (\<not> referenced) ?F"
    obtain b where b: "secrets w req = Some b" and secret: "secret = secret_of req b"
      using gq(6) by blast
    have loop: "tryUpdateLoop (Suc 3) (10 * Millisecond) 5 req ?t ?w3 = (err, w4)"
      using update(3) secret by (simp add: TryUpdate_def DefaultBackoff_def numeral_eq_Suc)
    have q3: "list_all quiet (schedule ?w3)" using lq(4) by simp
    have b3: "secrets ?w3 req = Some b" using b lq(1) gq(1) by simp
    note tq = tryUpdateLoop_quiet [OF q3 b3 loop]
    have st: "secrets ?w' = secrets w4" "resources ?w' = resources w4"
      using update(4) by auto
    have res: "resources ?w' = resources w" using st(2) tq(1) lq(2) gq(2) by simp
    from tq(2) show ?thesis
    proof
      assume "err = None \<and> secrets w4 = (secrets ?w3)(req \<mapsto>
            (body_of (?t (secret_of req b)))\<lparr>ResourceVersion := Suc (revision ?w3)\<rparr>)"
      then have "secrets ?w' = (secrets w)(req \<mapsto>
            (body_of (?t (secret_of req b)))\<lparr>ResourceVersion := Suc (revision ?w3)\<rparr>)"
        using st(1) lq(1) gq(1) by simp
      then show ?thesis using res b
        by (cases referenced) (auto simp: updateFinalizers_set)
    next
      assume "(\<exists>m. err = Some (ServerError m)) \<and> secrets w4 = secrets ?w3"
      then have "secrets ?w' = secrets w" using st(1) lq(1) gq(1) by simp
      then show ?thesis using res b by simp
    qed
  qed
  show "resources ?w' = resources w" using all by blast
  show "\<And>key. key \<noteq> req \<Longrightarrow> secrets ?w' key = secrets w key" using all by blast
  show "case secrets w req of
            None \<Rightarrow> secrets ?w' req = None
          | Some b \<Rightarrow>
              (\<exists>b'. secrets ?w' req = Some b' \<and> Data b' = Data b
                 \<and> (\<forall>g. g \<noteq> ?F \<longrightarrow> (g \<in> set (Finalizers b')) = (g \<in> set (Finalizers b))))"
    using all by blast
qed

text \<open>
  Scenario A again: the ManagedResources and the other keys are untouched, the foreign
  finalizer stays and the Data is the same.
\<close>

theorem reconcile_frame_witness:
  "versions_bounded (example_world [''foreign''] [web] [])
   \<and> list_all quiet (schedule (example_world [''foreign''] [web] []))
   \<and> resources (snd (Reconcile example_reconciler db_creds (example_world [''foreign''] [web] [])))
      = [web]
   \<and> secrets (snd (Reconcile example_reconciler db_creds (example_world [''foreign''] [web] [])))
        (''shoot'', ''other'') = None
   \<and> secrets (snd (Reconcile example_reconciler db_creds (example_world [''foreign''] [web] [])))
        db_creds
      = Some \<lparr>ResourceVersion = 8,
          Finalizers = [''foreign'', ''resources.gardener.cloud/gardener-resource-manager''],
          Data = ''payload''\<rparr>"
proof -
  let ?W = "example_world [''foreign''] [web] []"
  have b: "versions_bounded ?W" by (simp add: versions_bounded_def example_world_def)
  have q: "list_all quiet (schedule ?W)" by (simp add: example_world_def)
  have s: "secrets (snd (Reconcile example_reconciler db_creds ?W)) db_creds
      = Some \<lparr>ResourceVersion = 8,
          Finalizers = [''foreign'', ''resources.gardener.cloud/gardener-resource-manager''],
          Data = ''payload''\<rparr>"
    by (simp add: run_defs)
  have o: "secrets ?W (''shoot'', ''other'') = None" "resources ?W = [web]"
    "(''shoot'', ''other'') \<noteq> db_creds"
    by (simp_all add: example_world_def db_creds_def)
  from reconcile_frame [of ?W example_reconciler db_creds] q
  have "resources (snd (Reconcile example_reconciler db_creds ?W)) = resources ?W"
    "secrets (snd (Reconcile example_reconciler db_creds ?W)) (''shoot'', ''other'')
      = secrets ?W (''shoot'', ''other'')"
    using o(3) by blast+
  then show ?thesis using b q s o by simp
qed

end
